theory Spec2Isabelle
  imports Main
begin

section \<open>JavaScript string primitives\<close>

text \<open>
  A JavaScript string is modelled as a \<^typ>\<open>string\<close>, a list of 8-bit characters: the
  code units below 256. The texts that the program writes and searches are ASCII.
  \<open>toUpperCase\<close> and \<open>toLowerCase\<close> are modelled on the ASCII letters and leave every
  other character alone; this is what JavaScript does on ASCII text, and not on the
  letters beyond it. The statements about names are therefore made for valid names
  (\<open>validName\<close> below), which are ASCII.
\<close>

definition is_upper :: "char \<Rightarrow> bool" where
  "is_upper c = (65 \<le> (of_char c :: nat) \<and> (of_char c :: nat) \<le> 90)"

definition is_lower :: "char \<Rightarrow> bool" where
  "is_lower c = (97 \<le> (of_char c :: nat) \<and> (of_char c :: nat) \<le> 122)"

definition is_digit :: "char \<Rightarrow> bool" where
  "is_digit c = (48 \<le> (of_char c :: nat) \<and> (of_char c :: nat) \<le> 57)"

definition toLowerChar :: "char \<Rightarrow> char" where
  "toLowerChar c = (if is_upper c then char_of ((of_char c :: nat) + 32) else c)"

definition toUpperChar :: "char \<Rightarrow> char" where
  "toUpperChar c = (if is_lower c then char_of ((of_char c :: nat) - 32) else c)"

definition toLowerCase :: "string \<Rightarrow> string" where
  "toLowerCase s = map toLowerChar s"

text \<open>\<open>s.replace(/x/g, y)\<close> for single characters \<open>x\<close> and \<open>y\<close>.\<close>

definition replaceChar :: "char \<Rightarrow> char \<Rightarrow> string \<Rightarrow> string" where
  "replaceChar x y s = map (\<lambda>c. if c = x then y else c) s"

text \<open>\<open>s.replace(/([A-Z])/g, sep + '$1')\<close>: \<open>sep\<close> goes in front of every capital.\<close>

definition prefixUpper :: "char \<Rightarrow> string \<Rightarrow> string" where
  "prefixUpper sep s = concat (map (\<lambda>c. if is_upper c then [sep, c] else [c]) s)"

text \<open>\<open>s.replace(/^x/, '')\<close>: one leading \<open>x\<close> is dropped.\<close>

fun stripLeading :: "char \<Rightarrow> string \<Rightarrow> string" where
  "stripLeading x [] = []"
| "stripLeading x (c # cs) = (if c = x then cs else c # cs)"

text \<open>
  \<open>s.split(sep)\<close> for a separator that is one character of a class: the segments
  between separators, so a string with \<open>n\<close> separators has \<open>n + 1\<close> segments and the
  empty string has the one segment \<open>''''\<close>. \<open>cur\<close> holds the current segment reversed.
\<close>

fun splitAcc :: "(char \<Rightarrow> bool) \<Rightarrow> string \<Rightarrow> string \<Rightarrow> string list" where
  "splitAcc sep cur [] = [rev cur]"
| "splitAcc sep cur (c # cs) =
     (if sep c then rev cur # splitAcc sep [] cs else splitAcc sep (c # cur) cs)"

definition split :: "(char \<Rightarrow> bool) \<Rightarrow> string \<Rightarrow> string list" where
  "split sep s = splitAcc sep [] s"

text \<open>\<open>s.includes(t)\<close>: \<open>t\<close> occurs in \<open>s\<close>.\<close>

fun startsWith :: "string \<Rightarrow> string \<Rightarrow> bool" where
  "startsWith s [] = True"
| "startsWith [] (t # ts) = False"
| "startsWith (c # cs) (t # ts) = (c = t \<and> startsWith cs ts)"

fun includesStr :: "string \<Rightarrow> string \<Rightarrow> bool" where
  "includesStr [] t = (t = [])"
| "includesStr (c # cs) t = (startsWith (c # cs) t \<or> includesStr cs t)"

section \<open>Naming normalizer\<close>

definition toSnakeCase :: "string \<Rightarrow> string" where
  "toSnakeCase str =
     replaceChar (CHR ''-'') (CHR ''_'')
       (stripLeading (CHR ''_'') (toLowerCase (prefixUpper (CHR ''_'') str)))"

text \<open>\<open>word.charAt(0).toUpperCase() + word.slice(1).toLowerCase()\<close>\<close>

fun capitalize :: "string \<Rightarrow> string" where
  "capitalize [] = []"
| "capitalize (c # cs) = toUpperChar c # toLowerCase cs"

definition isNameSeparator :: "char \<Rightarrow> bool" where
  "isNameSeparator c = (c = CHR ''-'' \<or> c = CHR ''_'')"

definition toPascalCase :: "string \<Rightarrow> string" where
  "toPascalCase str = concat (map capitalize (split isNameSeparator str))"

definition toKebabCase :: "string \<Rightarrow> string" where
  "toKebabCase str =
     replaceChar (CHR ''_'') (CHR ''-'')
       (stripLeading (CHR ''-'') (toLowerCase (prefixUpper (CHR ''-'') str)))"

text \<open>
  The names that the naming functions are meant for: non-empty strings of ASCII
  letters, digits, hyphens and underscores. The commands do not check a name.
\<close>

definition isNameChar :: "char \<Rightarrow> bool" where
  "isNameChar c =
     (is_upper c \<or> is_lower c \<or> is_digit c \<or> c = CHR ''-'' \<or> c = CHR ''_'')"

definition validName :: "string \<Rightarrow> bool" where
  "validName str = (str \<noteq> [] \<and> list_all isNameChar str)"

section \<open>Paths and the file system\<close>

text \<open>
  A path is the list of its components below the root. \<open>path.join\<close> splits every
  argument at \<open>/\<close> and normalizes: empty components and \<open>.\<close> are dropped and \<open>..\<close>
  removes the component before it (the root is its own parent).
\<close>

type_synonym path = "string list"

fun normalize :: "string list \<Rightarrow> path \<Rightarrow> path" where
  "normalize [] acc = rev acc"
| "normalize (s # ss) acc =
     (if s = [] \<or> s = ''.'' then normalize ss acc
      else if s = ''..'' then normalize ss (case acc of [] \<Rightarrow> [] | _ # up \<Rightarrow> up)
      else normalize ss (s # acc))"

definition join :: "path \<Rightarrow> string list \<Rightarrow> path" where
  "join base segments =
     normalize (concat (map (split (\<lambda>c. c = CHR ''/'')) segments)) (rev base)"

text \<open>\<open>path.resolve(cwd, p)\<close>: an absolute \<open>p\<close> starts again from the root.\<close>

definition resolve :: "path \<Rightarrow> string \<Rightarrow> path" where
  "resolve cwd p = (case p of
       c # _ \<Rightarrow> if c = CHR ''/'' then join [] [p] else join cwd [p]
     | [] \<Rightarrow> cwd)"

definition basename :: "path \<Rightarrow> string" where
  "basename p = (case rev p of [] \<Rightarrow> [] | s # _ \<Rightarrow> s)"

definition dirname :: "path \<Rightarrow> path" where
  "dirname p = butlast p"

text \<open>The path as the commands print it.\<close>

definition pathString :: "path \<Rightarrow> string" where
  "pathString p = (if p = [] then ''/'' else concat (map (\<lambda>s. ''/'' @ s) p))"

text \<open>
  The file system maps a path to a file with its text or to a directory. It is kept as an
  association list in the order of creation, and \<open>readdir\<close> lists a directory in that
  order (the operating system decides the real one). The root always exists. The
  \<open>fs-extra\<close> calls that the commands make are modelled with the errors they raise.
\<close>

datatype node = File string | Dir

type_synonym filesystem = "(path \<times> node) list"

datatype error =
    ENOENT | EISDIR | ENOTDIR | EEXIST   \<comment> \<open>file system errors\<close>
  | SyntaxError | TypeError              \<comment> \<open>thrown by \<open>JSON.parse\<close> and property access\<close>
  | TemplateError                        \<comment> \<open>thrown by the template engine\<close>
  | OutOfFuel
  | UnsupportedLanguage | UnsupportedPattern | UnsupportedTransport | UnsupportedType
  | DirectoryExists | PathNotFound | UnknownLanguage

definition await :: "error + 'a \<Rightarrow> ('a \<Rightarrow> error + 'b) \<Rightarrow> error + 'b" where
  "await r k = (case r of Inl e \<Rightarrow> Inl e | Inr v \<Rightarrow> k v)"

definition stat :: "filesystem \<Rightarrow> path \<Rightarrow> node option" where
  "stat fs p = (if p = [] then Some Dir else map_of fs p)"

definition pathExists :: "filesystem \<Rightarrow> path \<Rightarrow> bool" where
  "pathExists fs p = (stat fs p \<noteq> None)"

definition readFile :: "filesystem \<Rightarrow> path \<Rightarrow> error + string" where
  "readFile fs p = (case stat fs p of
       None \<Rightarrow> Inl ENOENT
     | Some Dir \<Rightarrow> Inl EISDIR
     | Some (File content) \<Rightarrow> Inr content)"

fun put :: "path \<Rightarrow> node \<Rightarrow> filesystem \<Rightarrow> filesystem" where
  "put p n [] = [(p, n)]"
| "put p n ((q, m) # rest) = (if q = p then (p, n) # rest else (q, m) # put p n rest)"

definition writeFile :: "filesystem \<Rightarrow> path \<Rightarrow> string \<Rightarrow> error + filesystem" where
  "writeFile fs p content = (case stat fs p of
       Some Dir \<Rightarrow> Inl EISDIR
     | _ \<Rightarrow> (case stat fs (dirname p) of
         None \<Rightarrow> Inl ENOENT
       | Some (File _) \<Rightarrow> Inl ENOTDIR
       | Some Dir \<Rightarrow> Inr (put p (File content) fs)))"

text \<open>
  \<open>fs.ensureDir\<close> creates the directory and every missing ancestor. A regular file in
  the way is \<open>EEXIST\<close> when it is at the path itself and \<open>ENOTDIR\<close> when it is at an
  ancestor.
\<close>

fun mkdirs :: "filesystem \<Rightarrow> path \<Rightarrow> string list \<Rightarrow> error + filesystem" where
  "mkdirs fs parent [] = Inr fs"
| "mkdirs fs parent (s # ss) = (case stat fs (parent @ [s]) of
       None \<Rightarrow> mkdirs (put (parent @ [s]) Dir fs) (parent @ [s]) ss
     | Some Dir \<Rightarrow> mkdirs fs (parent @ [s]) ss
     | Some (File _) \<Rightarrow> Inl (if ss = [] then EEXIST else ENOTDIR))"

definition ensureDir :: "filesystem \<Rightarrow> path \<Rightarrow> error + filesystem" where
  "ensureDir fs p = mkdirs fs [] p"

text \<open>\<open>fs.readdir(p, { withFileTypes: true })\<close>: the entries of \<open>p\<close>, each with its kind.\<close>

definition readdir :: "filesystem \<Rightarrow> path \<Rightarrow> error + (string \<times> node) list" where
  "readdir fs p = (case stat fs p of
       None \<Rightarrow> Inl ENOENT
     | Some (File _) \<Rightarrow> Inl ENOTDIR
     | Some Dir \<Rightarrow> Inr (map (\<lambda>(q, n). (basename q, n))
                        (filter (\<lambda>(q, n). q \<noteq> [] \<and> dirname q = p) fs)))"

section \<open>Procedural generators\<close>

text \<open>
  \<open>JSON.stringify\<close> of a string: the text between double quotes, with the quote, the
  backslash and the control characters escaped.
\<close>

definition hexDigit :: "nat \<Rightarrow> char" where
  "hexDigit n = (if n < 10 then char_of (48 + n) else char_of (87 + n))"

definition jsonEscape :: "char \<Rightarrow> string" where
  "jsonEscape c =
     (if c = CHR 0x22 then [CHR 0x5C, CHR 0x22]
      else if c = CHR 0x5C then [CHR 0x5C, CHR 0x5C]
      else if c = CHR 0x08 then [CHR 0x5C, CHR ''b'']
      else if c = CHR 0x09 then [CHR 0x5C, CHR ''t'']
      else if c = CHR 0x0A then [CHR 0x5C, CHR ''n'']
      else if c = CHR 0x0C then [CHR 0x5C, CHR ''f'']
      else if c = CHR 0x0D then [CHR 0x5C, CHR ''r'']
      else if (of_char c :: nat) < 32
        then [CHR 0x5C, CHR ''u'', CHR ''0'', CHR ''0'',
              hexDigit ((of_char c :: nat) div 16), hexDigit ((of_char c :: nat) mod 16)]
      else [c])"

definition jsonString :: "string \<Rightarrow> string" where
  "jsonString s = [CHR 0x22] @ concat (map jsonEscape s) @ [CHR 0x22]"

text \<open>
  A generator writes template literals. Each is a function here, of the name forms it
  interpolates, named after the file it is written to; a line of the literal is a line of
  the definition.

  The files of \<open>generatePythonProject\<close>: \<open>pyproject.toml\<close>, \<open>__init__.py\<close>, \<open>__main__.py\<close>,
  \<open>README.md\<close>, \<open>.gitignore\<close>, and the two texts of \<open>server.py\<close>.
\<close>

definition pythonPyprojectToml :: "string \<Rightarrow> string" where
  \<open>pythonPyprojectToml nameSnake =
     ''[build-system]\<newline>'' @
     ''requires = ["setuptools>=61.0", "wheel"]\<newline>'' @
     ''build-backend = "setuptools.build_meta"\<newline>'' @
     ''\<newline>'' @
     ''[project]\<newline>'' @
     ''name = "'' @ nameSnake @ ''"\<newline>'' @
     ''version = "0.1.0"\<newline>'' @
     ''description = "MCP server created with MCPForge"\<newline>'' @
     ''readme = "README.md"\<newline>'' @
     ''requires-python = ">=3.11"\<newline>'' @
     ''dependencies = [\<newline>'' @
     ''    "mcp>=1.0.0",\<newline>'' @
     ''    "fastmcp>=2.0.0",\<newline>'' @
     '']\<newline>'' @
     ''\<newline>'' @
     ''[project.optional-dependencies]\<newline>'' @
     ''dev = [\<newline>'' @
     ''    "pytest>=8.0.0",\<newline>'' @
     ''    "pytest-asyncio>=0.24.0",\<newline>'' @
     ''    "ruff>=0.8.0",\<newline>'' @
     '']\<newline>'' @
     ''\<newline>'' @
     ''[tool.ruff]\<newline>'' @
     ''line-length = 100\<newline>'' @
     ''target-version = "py311"\<newline>'' @
     ''\<newline>'' @
     ''[tool.ruff.lint]\<newline>'' @
     ''select = ["E", "F", "I", "N", "W"]\<newline>''\<close>

definition pythonInitPy :: "string \<Rightarrow> string" where
  \<open>pythonInitPy namePascal =
     ''"""'' @ namePascal @ '' MCP Server"""\<newline>''\<close>

definition pythonMainPy :: "string \<Rightarrow> string \<Rightarrow> string" where
  \<open>pythonMainPy namePascal transport =
     ''"""Entry point for '' @ namePascal @ '' MCP Server"""\<newline>'' @
     ''from .server import server\<newline>'' @
     ''\<newline>'' @
     ''if __name__ == "__main__":\<newline>'' @
     ''    server.run(transport="'' @ transport @ ''")\<newline>''\<close>

definition pythonReadme :: "string \<Rightarrow> string \<Rightarrow> string" where
  \<open>pythonReadme nameSnake namePascal =
     ''# '' @ namePascal @ ''\<newline>'' @
     ''\<newline>'' @
     ''MCP server created with [MCPForge](https://github.com/Richardmsbr/mcpforge).\<newline>'' @
     ''\<newline>'' @
     ''## Installation\<newline>'' @
     ''\<newline>'' @
     ''```bash\<newline>'' @
     ''pip install -e .\<newline>'' @
     ''```\<newline>'' @
     ''\<newline>'' @
     ''## Usage\<newline>'' @
     ''\<newline>'' @
     ''```bash\<newline>'' @
     ''python -m '' @ nameSnake @ ''\<newline>'' @
     ''```\<newline>'' @
     ''\<newline>'' @
     ''## Development\<newline>'' @
     ''\<newline>'' @
     ''```bash\<newline>'' @
     ''pip install -e ".[dev]"\<newline>'' @
     ''pytest\<newline>'' @
     ''```\<newline>''\<close>

definition pythonGitignore :: "string" where
  \<open>pythonGitignore =
     ''__pycache__/\<newline>'' @
     ''*.py[cod]\<newline>'' @
     ''*$py.class\<newline>'' @
     ''*.egg-info/\<newline>'' @
     ''dist/\<newline>'' @
     ''build/\<newline>'' @
     ''.eggs/\<newline>'' @
     ''.pytest_cache/\<newline>'' @
     ''.ruff_cache/\<newline>'' @
     ''.venv/\<newline>'' @
     ''venv/\<newline>'' @
     ''.env\<newline>''\<close>

definition generatePythonBasicServer :: "string \<Rightarrow> string \<Rightarrow> string" where
  \<open>generatePythonBasicServer nameSnake namePascal =
     ''"""'' @ namePascal @ '' MCP Server"""\<newline>'' @
     ''from fastmcp import FastMCP\<newline>'' @
     ''\<newline>'' @
     ''server = FastMCP("'' @ nameSnake @ ''")\<newline>'' @
     ''\<newline>'' @
     ''\<newline>'' @
     ''@server.tool()\<newline>'' @
     ''async def hello(name: str = "World") -> str:\<newline>'' @
     ''    """Say hello to someone.\<newline>'' @
     ''\<newline>'' @
     ''    Args:\<newline>'' @
     ''        name: The name to greet\<newline>'' @
     ''\<newline>'' @
     ''    Returns:\<newline>'' @
     ''        A greeting message\<newline>'' @
     ''    """\<newline>'' @
     ''    return f"Hello, {name}!"\<newline>'' @
     ''\<newline>'' @
     ''\<newline>'' @
     ''@server.tool()\<newline>'' @
     ''async def add(a: int, b: int) -> int:\<newline>'' @
     ''    """Add two numbers.\<newline>'' @
     ''\<newline>'' @
     ''    Args:\<newline>'' @
     ''        a: First number\<newline>'' @
     ''        b: Second number\<newline>'' @
     ''\<newline>'' @
     ''    Returns:\<newline>'' @
     ''        The sum of a and b\<newline>'' @
     ''    """\<newline>'' @
     ''    return a + b\<newline>'' @
     ''\<newline>'' @
     ''\<newline>'' @
     ''@server.resource("config://settings")\<newline>'' @
     ''async def get_settings() -> str:\<newline>'' @
     ''    """Get server configuration settings."""\<newline>'' @
     ''    return """\<newline>'' @
     ''    {\<newline>'' @
     ''        "version": "0.1.0",\<newline>'' @
     ''        "name": "'' @ nameSnake @ ''",\<newline>'' @
     ''        "created_with": "mcpforge"\<newline>'' @
     ''    }\<newline>'' @
     ''    """\<newline>''\<close>

definition generatePythonEnterpriseServer :: "string \<Rightarrow> string \<Rightarrow> string" where
  \<open>generatePythonEnterpriseServer nameSnake namePascal =
     ''"""'' @ namePascal @ '' MCP Server - Enterprise Edition"""\<newline>'' @
     ''import logging\<newline>'' @
     ''import os\<newline>'' @
     ''from contextlib import asynccontextmanager\<newline>'' @
     ''from typing import AsyncIterator\<newline>'' @
     ''\<newline>'' @
     ''from fastmcp import FastMCP\<newline>'' @
     ''from fastmcp.security import OAuth2Provider\<newline>'' @
     ''\<newline>'' @
     ''# Configure logging\<newline>'' @
     ''logging.basicConfig(\<newline>'' @
     ''    level=logging.INFO,\<newline>'' @
     ''    format="%(asctime)s - %(name)s - %(levelname)s - %(message)s"\<newline>'' @
     '')\<newline>'' @
     ''logger = logging.getLogger("'' @ nameSnake @ ''")\<newline>'' @
     ''\<newline>'' @
     ''\<newline>'' @
     ''@asynccontextmanager\<newline>'' @
     ''async def lifespan(server: FastMCP) -> AsyncIterator[dict]:\<newline>'' @
     ''    """Manage server lifecycle - startup and shutdown."""\<newline>'' @
     ''    logger.info("Starting '' @ namePascal @ '' server...")\<newline>'' @
     ''\<newline>'' @
     ''    # Initialize resources (database connections, caches, etc.)\<newline>'' @
     ''    resources = {\<newline>'' @
     ''        "startup_time": __import__("datetime").datetime.now().isoformat(),\<newline>'' @
     ''    }\<newline>'' @
     ''\<newline>'' @
     ''    yield resources\<newline>'' @
     ''\<newline>'' @
     ''    logger.info("Shutting down '' @ namePascal @ '' server...")\<newline>'' @
     ''    # Cleanup resources\<newline>'' @
     ''\<newline>'' @
     ''\<newline>'' @
     ''server = FastMCP(\<newline>'' @
     ''    "'' @ nameSnake @ ''",\<newline>'' @
     ''    lifespan=lifespan,\<newline>'' @
     '')\<newline>'' @
     ''\<newline>'' @
     ''# Configure OAuth2 authentication (if enabled)\<newline>'' @
     ''if os.getenv("OAUTH2_ENABLED"):\<newline>'' @
     ''    server.use_auth(OAuth2Provider(\<newline>'' @
     ''        issuer=os.getenv("OAUTH2_ISSUER", "https://auth.example.com"),\<newline>'' @
     ''        audience=os.getenv("OAUTH2_AUDIENCE", "'' @ nameSnake @ ''"),\<newline>'' @
     ''    ))\<newline>'' @
     ''\<newline>'' @
     ''\<newline>'' @
     ''@server.tool()\<newline>'' @
     ''async def hello(name: str = "World") -> str:\<newline>'' @
     ''    """Say hello to someone.\<newline>'' @
     ''\<newline>'' @
     ''    Args:\<newline>'' @
     ''        name: The name to greet\<newline>'' @
     ''\<newline>'' @
     ''    Returns:\<newline>'' @
     ''        A greeting message\<newline>'' @
     ''    """\<newline>'' @
     ''    logger.info(f"hello called with name={name}")\<newline>'' @
     ''    return f"Hello, {name}!"\<newline>'' @
     ''\<newline>'' @
     ''\<newline>'' @
     ''@server.tool()\<newline>'' @
     ''async def health_check() -> dict:\<newline>'' @
     ''    """Check server health status.\<newline>'' @
     ''\<newline>'' @
     ''    Returns:\<newline>'' @
     ''        Health status information\<newline>'' @
     ''    """\<newline>'' @
     ''    return {\<newline>'' @
     ''        "status": "healthy",\<newline>'' @
     ''        "version": "0.1.0",\<newline>'' @
     ''        "uptime": server.context.get("startup_time", "unknown"),\<newline>'' @
     ''    }\<newline>'' @
     ''\<newline>'' @
     ''\<newline>'' @
     ''@server.resource("config://settings")\<newline>'' @
     ''async def get_settings() -> str:\<newline>'' @
     ''    """Get server configuration settings."""\<newline>'' @
     ''    return """\<newline>'' @
     ''    {\<newline>'' @
     ''        "version": "0.1.0",\<newline>'' @
     ''        "name": "'' @ nameSnake @ ''",\<newline>'' @
     ''        "created_with": "mcpforge",\<newline>'' @
     ''        "pattern": "enterprise"\<newline>'' @
     ''    }\<newline>'' @
     ''    """\<newline>'' @
     ''\<newline>'' @
     ''\<newline>'' @
     ''@server.prompt()\<newline>'' @
     ''async def system_prompt() -> str:\<newline>'' @
     ''    """Get the system prompt for this server."""\<newline>'' @
     ''    return """You are an assistant with access to the '' @ namePascal @ '' MCP server.\<newline>'' @
     ''\<newline>'' @
     ''Available tools:\<newline>'' @
     ''- hello: Greet someone by name\<newline>'' @
     ''- health_check: Check server health status\<newline>'' @
     ''\<newline>'' @
     ''Use these tools to help the user with their requests."""\<newline>''\<close>

text \<open>
  The files of \<open>generateTypeScriptProject\<close>. \<open>package.json\<close> and \<open>tsconfig.json\<close> are the
  output of \<open>JSON.stringify(..., null, 2)\<close> on the two object literals.
\<close>

definition typescriptPackageJson :: "string \<Rightarrow> string" where
  \<open>typescriptPackageJson nameKebab =
     ''{\<newline>'' @
     ''  "name": '' @ jsonString nameKebab @ '',\<newline>'' @
     ''  "version": "0.1.0",\<newline>'' @
     ''  "description": "MCP server created with MCPForge",\<newline>'' @
     ''  "type": "module",\<newline>'' @
     ''  "main": "dist/index.js",\<newline>'' @
     ''  "scripts": {\<newline>'' @
     ''    "build": "tsc",\<newline>'' @
     ''    "dev": "tsc --watch",\<newline>'' @
     ''    "start": "node dist/index.js",\<newline>'' @
     ''    "test": "vitest",\<newline>'' @
     ''    "lint": "eslint src --ext .ts"\<newline>'' @
     ''  },\<newline>'' @
     ''  "dependencies": {\<newline>'' @
     ''    "@modelcontextprotocol/sdk": "^1.0.0"\<newline>'' @
     ''  },\<newline>'' @
     ''  "devDependencies": {\<newline>'' @
     ''    "@types/node": "^22.0.0",\<newline>'' @
     ''    "typescript": "^5.7.0",\<newline>'' @
     ''    "vitest": "^2.1.0",\<newline>'' @
     ''    "eslint": "^9.0.0"\<newline>'' @
     ''  }\<newline>'' @
     ''}''\<close>

definition typescriptTsconfigJson :: "string" where
  \<open>typescriptTsconfigJson =
     ''{\<newline>'' @
     ''  "compilerOptions": {\<newline>'' @
     ''    "target": "ES2022",\<newline>'' @
     ''    "module": "ESNext",\<newline>'' @
     ''    "moduleResolution": "bundler",\<newline>'' @
     ''    "lib": [\<newline>'' @
     ''      "ES2022"\<newline>'' @
     ''    ],\<newline>'' @
     ''    "outDir": "./dist",\<newline>'' @
     ''    "rootDir": "./src",\<newline>'' @
     ''    "strict": true,\<newline>'' @
     ''    "esModuleInterop": true,\<newline>'' @
     ''    "skipLibCheck": true,\<newline>'' @
     ''    "declaration": true\<newline>'' @
     ''  },\<newline>'' @
     ''  "include": [\<newline>'' @
     ''    "src/**/*"\<newline>'' @
     ''  ],\<newline>'' @
     ''  "exclude": [\<newline>'' @
     ''    "node_modules",\<newline>'' @
     ''    "dist"\<newline>'' @
     ''  ]\<newline>'' @
     ''}''\<close>

definition typescriptReadme :: "string \<Rightarrow> string" where
  \<open>typescriptReadme namePascal =
     ''# '' @ namePascal @ ''\<newline>'' @
     ''\<newline>'' @
     ''MCP server created with [MCPForge](https://github.com/Richardmsbr/mcpforge).\<newline>'' @
     ''\<newline>'' @
     ''## Installation\<newline>'' @
     ''\<newline>'' @
     ''```bash\<newline>'' @
     ''npm install\<newline>'' @
     ''```\<newline>'' @
     ''\<newline>'' @
     ''## Usage\<newline>'' @
     ''\<newline>'' @
     ''```bash\<newline>'' @
     ''npm run build\<newline>'' @
     ''npm start\<newline>'' @
     ''```\<newline>'' @
     ''\<newline>'' @
     ''## Development\<newline>'' @
     ''\<newline>'' @
     ''```bash\<newline>'' @
     ''npm run dev\<newline>'' @
     ''```\<newline>''\<close>

definition typescriptGitignore :: "string" where
  \<open>typescriptGitignore =
     ''node_modules/\<newline>'' @
     ''dist/\<newline>'' @
     ''.env\<newline>'' @
     ''*.log\<newline>''\<close>

definition generateTypeScriptBasicServer :: "string \<Rightarrow> string \<Rightarrow> string" where
  \<open>generateTypeScriptBasicServer nameKebab namePascal =
     ''/**\<newline>'' @
     '' * '' @ namePascal @ '' MCP Server\<newline>'' @
     '' * Created with MCPForge\<newline>'' @
     '' */\<newline>'' @
     ''import { Server } from '@modelcontextprotocol/sdk/server/index.js';\<newline>'' @
     ''import { StdioServerTransport } from '@modelcontextprotocol/sdk/server/stdio.js';\<newline>'' @
     ''import {\<newline>'' @
     ''  CallToolRequestSchema,\<newline>'' @
     ''  ListToolsRequestSchema,\<newline>'' @
     ''  ListResourcesRequestSchema,\<newline>'' @
     ''  ReadResourceRequestSchema,\<newline>'' @
     ''} from '@modelcontextprotocol/sdk/types.js';\<newline>'' @
     ''\<newline>'' @
     ''const server = new Server(\<newline>'' @
     ''  {\<newline>'' @
     ''    name: '' @ [CHR 0x27] @ nameKebab @ [CHR 0x27] @ '',\<newline>'' @
     ''    version: '0.1.0',\<newline>'' @
     ''  },\<newline>'' @
     ''  {\<newline>'' @
     ''    capabilities: {\<newline>'' @
     ''      tools: {},\<newline>'' @
     ''      resources: {},\<newline>'' @
     ''    },\<newline>'' @
     ''  }\<newline>'' @
     '');\<newline>'' @
     ''\<newline>'' @
     ''// List available tools\<newline>'' @
     ''server.setRequestHandler(ListToolsRequestSchema, async () => {\<newline>'' @
     ''  return {\<newline>'' @
     ''    tools: [\<newline>'' @
     ''      {\<newline>'' @
     ''        name: 'hello',\<newline>'' @
     ''        description: 'Say hello to someone',\<newline>'' @
     ''        inputSchema: {\<newline>'' @
     ''          type: 'object',\<newline>'' @
     ''          properties: {\<newline>'' @
     ''            name: {\<newline>'' @
     ''              type: 'string',\<newline>'' @
     ''              description: 'The name to greet',\<newline>'' @
     ''              default: 'World',\<newline>'' @
     ''            },\<newline>'' @
     ''          },\<newline>'' @
     ''        },\<newline>'' @
     ''      },\<newline>'' @
     ''      {\<newline>'' @
     ''        name: 'add',\<newline>'' @
     ''        description: 'Add two numbers',\<newline>'' @
     ''        inputSchema: {\<newline>'' @
     ''          type: 'object',\<newline>'' @
     ''          properties: {\<newline>'' @
     ''            a: { type: 'number', description: 'First number' },\<newline>'' @
     ''            b: { type: 'number', description: 'Second number' },\<newline>'' @
     ''          },\<newline>'' @
     ''          required: ['a', 'b'],\<newline>'' @
     ''        },\<newline>'' @
     ''      },\<newline>'' @
     ''    ],\<newline>'' @
     ''  };\<newline>'' @
     ''});\<newline>'' @
     ''\<newline>'' @
     ''// Handle tool calls\<newline>'' @
     ''server.setRequestHandler(CallToolRequestSchema, async (request) => {\<newline>'' @
     ''  const { name, arguments: args } = request.params;\<newline>'' @
     ''\<newline>'' @
     ''  switch (name) {\<newline>'' @
     ''    case 'hello': {\<newline>'' @
     ''      const greeting = `Hello, ${(args as { name?: string }).name || 'World'}!`;\<newline>'' @
     ''      return { content: [{ type: 'text', text: greeting }] };\<newline>'' @
     ''    }\<newline>'' @
     ''    case 'add': {\<newline>'' @
     ''      const { a, b } = args as { a: number; b: number };\<newline>'' @
     ''      return { content: [{ type: 'text', text: String(a + b) }] };\<newline>'' @
     ''    }\<newline>'' @
     ''    default:\<newline>'' @
     ''      throw new Error(`Unknown tool: ${name}`);\<newline>'' @
     ''  }\<newline>'' @
     ''});\<newline>'' @
     ''\<newline>'' @
     ''// List available resources\<newline>'' @
     ''server.setRequestHandler(ListResourcesRequestSchema, async () => {\<newline>'' @
     ''  return {\<newline>'' @
     ''    resources: [\<newline>'' @
     ''      {\<newline>'' @
     ''        uri: 'config://settings',\<newline>'' @
     ''        name: 'Settings',\<newline>'' @
     ''        description: 'Server configuration settings',\<newline>'' @
     ''        mimeType: 'application/json',\<newline>'' @
     ''      },\<newline>'' @
     ''    ],\<newline>'' @
     ''  };\<newline>'' @
     ''});\<newline>'' @
     ''\<newline>'' @
     ''// Read resource content\<newline>'' @
     ''server.setRequestHandler(ReadResourceRequestSchema, async (request) => {\<newline>'' @
     ''  const { uri } = request.params;\<newline>'' @
     ''\<newline>'' @
     ''  if (uri === 'config://settings') {\<newline>'' @
     ''    return {\<newline>'' @
     ''      contents: [\<newline>'' @
     ''        {\<newline>'' @
     ''          uri,\<newline>'' @
     ''          mimeType: 'application/json',\<newline>'' @
     ''          text: JSON.stringify(\<newline>'' @
     ''            {\<newline>'' @
     ''              version: '0.1.0',\<newline>'' @
     ''              name: '' @ [CHR 0x27] @ nameKebab @ [CHR 0x27] @ '',\<newline>'' @
     ''              created_with: 'mcpforge',\<newline>'' @
     ''            },\<newline>'' @
     ''            null,\<newline>'' @
     ''            2\<newline>'' @
     ''          ),\<newline>'' @
     ''        },\<newline>'' @
     ''      ],\<newline>'' @
     ''    };\<newline>'' @
     ''  }\<newline>'' @
     ''\<newline>'' @
     ''  throw new Error(`Unknown resource: ${uri}`);\<newline>'' @
     ''});\<newline>'' @
     ''\<newline>'' @
     ''// Start the server\<newline>'' @
     ''async function main() {\<newline>'' @
     ''  const transport = new StdioServerTransport();\<newline>'' @
     ''  await server.connect(transport);\<newline>'' @
     ''  console.error('' @ [CHR 0x27] @ namePascal @ '' MCP server running on stdio');\<newline>'' @
     ''}\<newline>'' @
     ''\<newline>'' @
     ''main().catch(console.error);\<newline>''\<close>

definition generateTypeScriptEnterpriseServer :: "string \<Rightarrow> string \<Rightarrow> string" where
  \<open>generateTypeScriptEnterpriseServer nameKebab namePascal =
     ''/**\<newline>'' @
     '' * '' @ namePascal @ '' MCP Server - Enterprise Edition\<newline>'' @
     '' * Created with MCPForge\<newline>'' @
     '' */\<newline>'' @
     ''import { Server } from '@modelcontextprotocol/sdk/server/index.js';\<newline>'' @
     ''import { StdioServerTransport } from '@modelcontextprotocol/sdk/server/stdio.js';\<newline>'' @
     ''import {\<newline>'' @
     ''  CallToolRequestSchema,\<newline>'' @
     ''  ListToolsRequestSchema,\<newline>'' @
     ''  ListResourcesRequestSchema,\<newline>'' @
     ''  ReadResourceRequestSchema,\<newline>'' @
     ''  ListPromptsRequestSchema,\<newline>'' @
     ''  GetPromptRequestSchema,\<newline>'' @
     ''} from '@modelcontextprotocol/sdk/types.js';\<newline>'' @
     ''\<newline>'' @
     ''const startupTime = new Date().toISOString();\<newline>'' @
     ''\<newline>'' @
     ''const server = new Server(\<newline>'' @
     ''  {\<newline>'' @
     ''    name: '' @ [CHR 0x27] @ nameKebab @ [CHR 0x27] @ '',\<newline>'' @
     ''    version: '0.1.0',\<newline>'' @
     ''  },\<newline>'' @
     ''  {\<newline>'' @
     ''    capabilities: {\<newline>'' @
     ''      tools: {},\<newline>'' @
     ''      resources: {},\<newline>'' @
     ''      prompts: {},\<newline>'' @
     ''    },\<newline>'' @
     ''  }\<newline>'' @
     '');\<newline>'' @
     ''\<newline>'' @
     ''console.error('Starting '' @ namePascal @ '' server...');\<newline>'' @
     ''\<newline>'' @
     ''// List available tools\<newline>'' @
     ''server.setRequestHandler(ListToolsRequestSchema, async () => {\<newline>'' @
     ''  return {\<newline>'' @
     ''    tools: [\<newline>'' @
     ''      {\<newline>'' @
     ''        name: 'hello',\<newline>'' @
     ''        description: 'Say hello to someone',\<newline>'' @
     ''        inputSchema: {\<newline>'' @
     ''          type: 'object',\<newline>'' @
     ''          properties: {\<newline>'' @
     ''            name: {\<newline>'' @
     ''              type: 'string',\<newline>'' @
     ''              description: 'The name to greet',\<newline>'' @
     ''              default: 'World',\<newline>'' @
     ''            },\<newline>'' @
     ''          },\<newline>'' @
     ''        },\<newline>'' @
     ''      },\<newline>'' @
     ''      {\<newline>'' @
     ''        name: 'health_check',\<newline>'' @
     ''        description: 'Check server health status',\<newline>'' @
     ''        inputSchema: {\<newline>'' @
     ''          type: 'object',\<newline>'' @
     ''          properties: {},\<newline>'' @
     ''        },\<newline>'' @
     ''      },\<newline>'' @
     ''    ],\<newline>'' @
     ''  };\<newline>'' @
     ''});\<newline>'' @
     ''\<newline>'' @
     ''// Handle tool calls\<newline>'' @
     ''server.setRequestHandler(CallToolRequestSchema, async (request) => {\<newline>'' @
     ''  const { name, arguments: args } = request.params;\<newline>'' @
     ''\<newline>'' @
     ''  switch (name) {\<newline>'' @
     ''    case 'hello': {\<newline>'' @
     ''      const userName = (args as { name?: string }).name || 'World';\<newline>'' @
     ''      console.error(`hello called with name=${userName}`);\<newline>'' @
     ''      return { content: [{ type: 'text', text: `Hello, ${userName}!` }] };\<newline>'' @
     ''    }\<newline>'' @
     ''    case 'health_check': {\<newline>'' @
     ''      return {\<newline>'' @
     ''        content: [{\<newline>'' @
     ''          type: 'text',\<newline>'' @
     ''          text: JSON.stringify({\<newline>'' @
     ''            status: 'healthy',\<newline>'' @
     ''            version: '0.1.0',\<newline>'' @
     ''            uptime: startupTime,\<newline>'' @
     ''          }, null, 2),\<newline>'' @
     ''        }],\<newline>'' @
     ''      };\<newline>'' @
     ''    }\<newline>'' @
     ''    default:\<newline>'' @
     ''      throw new Error(`Unknown tool: ${name}`);\<newline>'' @
     ''  }\<newline>'' @
     ''});\<newline>'' @
     ''\<newline>'' @
     ''// List available resources\<newline>'' @
     ''server.setRequestHandler(ListResourcesRequestSchema, async () => {\<newline>'' @
     ''  return {\<newline>'' @
     ''    resources: [\<newline>'' @
     ''      {\<newline>'' @
     ''        uri: 'config://settings',\<newline>'' @
     ''        name: 'Settings',\<newline>'' @
     ''        description: 'Server configuration settings',\<newline>'' @
     ''        mimeType: 'application/json',\<newline>'' @
     ''      },\<newline>'' @
     ''    ],\<newline>'' @
     ''  };\<newline>'' @
     ''});\<newline>'' @
     ''\<newline>'' @
     ''// Read resource content\<newline>'' @
     ''server.setRequestHandler(ReadResourceRequestSchema, async (request) => {\<newline>'' @
     ''  const { uri } = request.params;\<newline>'' @
     ''\<newline>'' @
     ''  if (uri === 'config://settings') {\<newline>'' @
     ''    return {\<newline>'' @
     ''      contents: [{\<newline>'' @
     ''        uri,\<newline>'' @
     ''        mimeType: 'application/json',\<newline>'' @
     ''        text: JSON.stringify({\<newline>'' @
     ''          version: '0.1.0',\<newline>'' @
     ''          name: '' @ [CHR 0x27] @ nameKebab @ [CHR 0x27] @ '',\<newline>'' @
     ''          created_with: 'mcpforge',\<newline>'' @
     ''          pattern: 'enterprise',\<newline>'' @
     ''        }, null, 2),\<newline>'' @
     ''      }],\<newline>'' @
     ''    };\<newline>'' @
     ''  }\<newline>'' @
     ''\<newline>'' @
     ''  throw new Error(`Unknown resource: ${uri}`);\<newline>'' @
     ''});\<newline>'' @
     ''\<newline>'' @
     ''// List available prompts\<newline>'' @
     ''server.setRequestHandler(ListPromptsRequestSchema, async () => {\<newline>'' @
     ''  return {\<newline>'' @
     ''    prompts: [\<newline>'' @
     ''      {\<newline>'' @
     ''        name: 'system',\<newline>'' @
     ''        description: 'System prompt for this server',\<newline>'' @
     ''      },\<newline>'' @
     ''    ],\<newline>'' @
     ''  };\<newline>'' @
     ''});\<newline>'' @
     ''\<newline>'' @
     ''// Get prompt content\<newline>'' @
     ''server.setRequestHandler(GetPromptRequestSchema, async (request) => {\<newline>'' @
     ''  const { name } = request.params;\<newline>'' @
     ''\<newline>'' @
     ''  if (name === 'system') {\<newline>'' @
     ''    return {\<newline>'' @
     ''      messages: [{\<newline>'' @
     ''        role: 'user',\<newline>'' @
     ''        content: {\<newline>'' @
     ''          type: 'text',\<newline>'' @
     ''          text: `You are an assistant with access to the '' @ namePascal @ '' MCP server.\<newline>'' @
     ''\<newline>'' @
     ''Available tools:\<newline>'' @
     ''- hello: Greet someone by name\<newline>'' @
     ''- health_check: Check server health status\<newline>'' @
     ''\<newline>'' @
     ''Use these tools to help the user with their requests.`,\<newline>'' @
     ''        },\<newline>'' @
     ''      }],\<newline>'' @
     ''    };\<newline>'' @
     ''  }\<newline>'' @
     ''\<newline>'' @
     ''  throw new Error(`Unknown prompt: ${name}`);\<newline>'' @
     ''});\<newline>'' @
     ''\<newline>'' @
     ''// Start the server\<newline>'' @
     ''async function main() {\<newline>'' @
     ''  const transport = new StdioServerTransport();\<newline>'' @
     ''  await server.connect(transport);\<newline>'' @
     ''  console.error('' @ [CHR 0x27] @ namePascal @ '' MCP server running on stdio');\<newline>'' @
     ''}\<newline>'' @
     ''\<newline>'' @
     ''main().catch(console.error);\<newline>''\<close>

text \<open>The files of \<open>generateGoProject\<close>: \<open>go.mod\<close>, \<open>main.go\<close>, \<open>README.md\<close>, \<open>.gitignore\<close>.\<close>

definition goMod :: "string \<Rightarrow> string" where
  \<open>goMod nameSnake =
     ''module '' @ nameSnake @ ''\<newline>'' @
     ''\<newline>'' @
     ''go 1.21\<newline>'' @
     ''\<newline>'' @
     ''require (\<newline>'' @
     ''    github.com/mark3labs/mcp-go v0.6.0\<newline>'' @
     '')\<newline>''\<close>

definition goMainGo :: "string \<Rightarrow> string \<Rightarrow> string" where
  \<open>goMainGo nameSnake namePascal =
     ''// '' @ namePascal @ '' MCP Server\<newline>'' @
     ''// Created with MCPForge\<newline>'' @
     ''package main\<newline>'' @
     ''\<newline>'' @
     ''import (\<newline>'' @
     ''    "context"\<newline>'' @
     ''    "fmt"\<newline>'' @
     ''    "log"\<newline>'' @
     ''\<newline>'' @
     ''    "github.com/mark3labs/mcp-go/mcp"\<newline>'' @
     ''    "github.com/mark3labs/mcp-go/server"\<newline>'' @
     '')\<newline>'' @
     ''\<newline>'' @
     ''func main() {\<newline>'' @
     ''    s := server.NewMCPServer(\<newline>'' @
     ''        "'' @ nameSnake @ ''",\<newline>'' @
     ''        "0.1.0",\<newline>'' @
     ''    )\<newline>'' @
     ''\<newline>'' @
     ''    // Register tools\<newline>'' @
     ''    s.AddTool(mcp.NewTool("hello",\<newline>'' @
     ''        mcp.WithDescription("Say hello to someone"),\<newline>'' @
     ''        mcp.WithString("name",\<newline>'' @
     ''            mcp.Description("The name to greet"),\<newline>'' @
     ''            mcp.DefaultString("World"),\<newline>'' @
     ''        ),\<newline>'' @
     ''    ), helloHandler)\<newline>'' @
     ''\<newline>'' @
     ''    s.AddTool(mcp.NewTool("add",\<newline>'' @
     ''        mcp.WithDescription("Add two numbers"),\<newline>'' @
     ''        mcp.WithNumber("a", mcp.Description("First number"), mcp.Required()),\<newline>'' @
     ''        mcp.WithNumber("b", mcp.Description("Second number"), mcp.Required()),\<newline>'' @
     ''    ), addHandler)\<newline>'' @
     ''\<newline>'' @
     ''    // Start server\<newline>'' @
     ''    if err := server.ServeStdio(s); err != nil {\<newline>'' @
     ''        log.Fatalf("Server error: %v", err)\<newline>'' @
     ''    }\<newline>'' @
     ''}\<newline>'' @
     ''\<newline>'' @
     ''func helloHandler(ctx context.Context, request mcp.CallToolRequest) (*mcp.CallToolResult, error) {\<newline>'' @
     ''    name, _ := request.Params.Arguments["name"].(string)\<newline>'' @
     ''    if name == "" {\<newline>'' @
     ''        name = "World"\<newline>'' @
     ''    }\<newline>'' @
     ''\<newline>'' @
     ''    return mcp.NewToolResultText(fmt.Sprintf("Hello, %s!", name)), nil\<newline>'' @
     ''}\<newline>'' @
     ''\<newline>'' @
     ''func addHandler(ctx context.Context, request mcp.CallToolRequest) (*mcp.CallToolResult, error) {\<newline>'' @
     ''    a, _ := request.Params.Arguments["a"].(float64)\<newline>'' @
     ''    b, _ := request.Params.Arguments["b"].(float64)\<newline>'' @
     ''\<newline>'' @
     ''    return mcp.NewToolResultText(fmt.Sprintf("%v", a+b)), nil\<newline>'' @
     ''}\<newline>''\<close>

definition goReadme :: "string \<Rightarrow> string \<Rightarrow> string" where
  \<open>goReadme nameSnake namePascal =
     ''# '' @ namePascal @ ''\<newline>'' @
     ''\<newline>'' @
     ''MCP server created with [MCPForge](https://github.com/Richardmsbr/mcpforge).\<newline>'' @
     ''\<newline>'' @
     ''## Installation\<newline>'' @
     ''\<newline>'' @
     ''```bash\<newline>'' @
     ''go mod tidy\<newline>'' @
     ''```\<newline>'' @
     ''\<newline>'' @
     ''## Usage\<newline>'' @
     ''\<newline>'' @
     ''```bash\<newline>'' @
     ''go run .\<newline>'' @
     ''```\<newline>'' @
     ''\<newline>'' @
     ''## Build\<newline>'' @
     ''\<newline>'' @
     ''```bash\<newline>'' @
     ''go build -o '' @ nameSnake @ ''\<newline>'' @
     ''```\<newline>''\<close>

definition goGitignore :: "string \<Rightarrow> string" where
  \<open>goGitignore nameSnake =
     nameSnake @ ''\<newline>'' @
     ''*.exe\<newline>'' @
     ''.env\<newline>''\<close>

text \<open>
  The files of \<open>generateRustProject\<close>: \<open>Cargo.toml\<close>, \<open>src/main.rs\<close>, \<open>README.md\<close>,
  \<open>.gitignore\<close>.
\<close>

definition rustCargoToml :: "string \<Rightarrow> string" where
  \<open>rustCargoToml nameSnake =
     ''[package]\<newline>'' @
     ''name = "'' @ nameSnake @ ''"\<newline>'' @
     ''version = "0.1.0"\<newline>'' @
     ''edition = "2021"\<newline>'' @
     ''description = "MCP server created with MCPForge"\<newline>'' @
     ''\<newline>'' @
     ''[dependencies]\<newline>'' @
     ''rmcp = { version = "0.8", features = ["server"] }\<newline>'' @
     ''tokio = { version = "1", features = ["full"] }\<newline>'' @
     ''serde = { version = "1", features = ["derive"] }\<newline>'' @
     ''serde_json = "1"\<newline>''\<close>

definition rustMainRs :: "string \<Rightarrow> string \<Rightarrow> string" where
  \<open>rustMainRs nameSnake namePascal =
     ''//! '' @ namePascal @ '' MCP Server\<newline>'' @
     ''//! Created with MCPForge\<newline>'' @
     ''\<newline>'' @
     ''use rmcp::{server::Server, tool, Error, Result};\<newline>'' @
     ''use serde::{Deserialize, Serialize};\<newline>'' @
     ''\<newline>'' @
     ''#[derive(Debug, Serialize, Deserialize)]\<newline>'' @
     ''struct HelloArgs {\<newline>'' @
     ''    #[serde(default = "default_name")]\<newline>'' @
     ''    name: String,\<newline>'' @
     ''}\<newline>'' @
     ''\<newline>'' @
     ''fn default_name() -> String {\<newline>'' @
     ''    "World".to_string()\<newline>'' @
     ''}\<newline>'' @
     ''\<newline>'' @
     ''#[derive(Debug, Serialize, Deserialize)]\<newline>'' @
     ''struct AddArgs {\<newline>'' @
     ''    a: f64,\<newline>'' @
     ''    b: f64,\<newline>'' @
     ''}\<newline>'' @
     ''\<newline>'' @
     ''#[tool(name = "hello", description = "Say hello to someone")]\<newline>'' @
     ''async fn hello(args: HelloArgs) -> Result<String> {\<newline>'' @
     ''    Ok(format!("Hello, {}!", args.name))\<newline>'' @
     ''}\<newline>'' @
     ''\<newline>'' @
     ''#[tool(name = "add", description = "Add two numbers")]\<newline>'' @
     ''async fn add(args: AddArgs) -> Result<String> {\<newline>'' @
     ''    Ok(format!("{}", args.a + args.b))\<newline>'' @
     ''}\<newline>'' @
     ''\<newline>'' @
     ''#[tokio::main]\<newline>'' @
     ''async fn main() -> Result<()> {\<newline>'' @
     ''    let server = Server::new("'' @ nameSnake @ ''", "0.1.0")\<newline>'' @
     ''        .tool(hello)\<newline>'' @
     ''        .tool(add);\<newline>'' @
     ''\<newline>'' @
     ''    server.run_stdio().await\<newline>'' @
     ''}\<newline>''\<close>

definition rustReadme :: "string \<Rightarrow> string" where
  \<open>rustReadme namePascal =
     ''# '' @ namePascal @ ''\<newline>'' @
     ''\<newline>'' @
     ''MCP server created with [MCPForge](https://github.com/Richardmsbr/mcpforge).\<newline>'' @
     ''\<newline>'' @
     ''## Installation\<newline>'' @
     ''\<newline>'' @
     ''```bash\<newline>'' @
     ''cargo build --release\<newline>'' @
     ''```\<newline>'' @
     ''\<newline>'' @
     ''## Usage\<newline>'' @
     ''\<newline>'' @
     ''```bash\<newline>'' @
     ''cargo run\<newline>'' @
     ''```\<newline>''\<close>

definition rustGitignore :: "string" where
  \<open>rustGitignore =
     ''target/\<newline>'' @
     ''Cargo.lock\<newline>'' @
     ''.env\<newline>''\<close>

text \<open>
  The generators proper: the writes in the order of the source, each on the file system
  the one before left. The first write that fails ends the generation with its error.
\<close>

definition generatePythonProject ::
  "filesystem \<Rightarrow> path \<Rightarrow> string \<Rightarrow> string \<Rightarrow> string \<Rightarrow> string \<Rightarrow> string \<Rightarrow> error + filesystem" where
  "generatePythonProject fs projectPath name nameSnake namePascal pattern transport =
     (let srcDir = join projectPath [nameSnake] in
      await (ensureDir fs srcDir) (\<lambda>fs.
      await (writeFile fs (join projectPath [''pyproject.toml''])
               (pythonPyprojectToml nameSnake)) (\<lambda>fs.
      await (writeFile fs (join srcDir [''__init__.py'']) (pythonInitPy namePascal)) (\<lambda>fs.
      await (writeFile fs (join srcDir [''__main__.py''])
               (pythonMainPy namePascal transport)) (\<lambda>fs.
      await (writeFile fs (join srcDir [''server.py''])
               (if pattern = ''enterprise''
                then generatePythonEnterpriseServer nameSnake namePascal
                else generatePythonBasicServer nameSnake namePascal)) (\<lambda>fs.
      await (writeFile fs (join projectPath [''README.md''])
               (pythonReadme nameSnake namePascal)) (\<lambda>fs.
      writeFile fs (join projectPath [''.gitignore'']) pythonGitignore)))))))"

definition generateTypeScriptProject ::
  "filesystem \<Rightarrow> path \<Rightarrow> string \<Rightarrow> string \<Rightarrow> string \<Rightarrow> string \<Rightarrow> string \<Rightarrow> error + filesystem" where
  "generateTypeScriptProject fs projectPath name nameKebab namePascal pattern transport =
     (let srcDir = join projectPath [''src''] in
      await (ensureDir fs srcDir) (\<lambda>fs.
      await (writeFile fs (join projectPath [''package.json''])
               (typescriptPackageJson nameKebab)) (\<lambda>fs.
      await (writeFile fs (join projectPath [''tsconfig.json'']) typescriptTsconfigJson) (\<lambda>fs.
      await (writeFile fs (join srcDir [''index.ts''])
               (if pattern = ''enterprise''
                then generateTypeScriptEnterpriseServer nameKebab namePascal
                else generateTypeScriptBasicServer nameKebab namePascal)) (\<lambda>fs.
      await (writeFile fs (join projectPath [''README.md'']) (typescriptReadme namePascal)) (\<lambda>fs.
      writeFile fs (join projectPath [''.gitignore'']) typescriptGitignore))))))"

definition generateGoProject ::
  "filesystem \<Rightarrow> path \<Rightarrow> string \<Rightarrow> string \<Rightarrow> string \<Rightarrow> string \<Rightarrow> string \<Rightarrow> error + filesystem" where
  "generateGoProject fs projectPath name nameSnake namePascal pattern transport =
     await (writeFile fs (join projectPath [''go.mod'']) (goMod nameSnake)) (\<lambda>fs.
     await (writeFile fs (join projectPath [''main.go'']) (goMainGo nameSnake namePascal)) (\<lambda>fs.
     await (writeFile fs (join projectPath [''README.md''])
              (goReadme nameSnake namePascal)) (\<lambda>fs.
     writeFile fs (join projectPath [''.gitignore'']) (goGitignore nameSnake))))"

definition generateRustProject ::
  "filesystem \<Rightarrow> path \<Rightarrow> string \<Rightarrow> string \<Rightarrow> string \<Rightarrow> string \<Rightarrow> string \<Rightarrow> error + filesystem" where
  "generateRustProject fs projectPath name nameSnake namePascal pattern transport =
     (let srcDir = join projectPath [''src''] in
      await (ensureDir fs srcDir) (\<lambda>fs.
      await (writeFile fs (join projectPath [''Cargo.toml'']) (rustCargoToml nameSnake)) (\<lambda>fs.
      await (writeFile fs (join srcDir [''main.rs'']) (rustMainRs nameSnake namePascal)) (\<lambda>fs.
      await (writeFile fs (join projectPath [''README.md'']) (rustReadme namePascal)) (\<lambda>fs.
      writeFile fs (join projectPath [''.gitignore'']) rustGitignore)))))"

definition generateProject ::
  "filesystem \<Rightarrow> path \<Rightarrow> string \<Rightarrow> string \<Rightarrow> string \<Rightarrow> string \<Rightarrow> error + filesystem" where
  "generateProject fs projectPath name lang pattern transport =
     (let nameSnake = toSnakeCase name;
          namePascal = toPascalCase name;
          nameKebab = toKebabCase name
      in if lang = ''python''
           then generatePythonProject fs projectPath name nameSnake namePascal pattern transport
         else if lang = ''typescript''
           then generateTypeScriptProject fs projectPath name nameKebab namePascal pattern transport
         else if lang = ''go''
           then generateGoProject fs projectPath name nameSnake namePascal pattern transport
         else if lang = ''rust''
           then generateRustProject fs projectPath name nameSnake namePascal pattern transport
         else Inr fs)"

section \<open>Template materializer\<close>

text \<open>
  The context is the list of the entries of the JavaScript object, in insertion order.
  \<open>targetName.replace(new RegExp(`__${key}__`, 'g'), value)\<close> is modelled for keys made
  of word characters and values without \<open>$\<close>, as the six keys and the name forms of
  \<open>newCommand\<close> are: every occurrence of the marker is replaced by the value.
\<close>

type_synonym templateContext = "(string \<times> string) list"

fun replaceAll :: "string \<Rightarrow> string \<Rightarrow> string \<Rightarrow> string" where
  "replaceAll pat rep [] = []"
| "replaceAll pat rep (c # cs) =
     (if pat \<noteq> [] \<and> startsWith (c # cs) pat
      then rep @ replaceAll pat rep (drop (length pat) (c # cs))
      else c # replaceAll pat rep cs)"

definition substituteName :: "templateContext \<Rightarrow> string \<Rightarrow> string" where
  "substituteName context fileName =
     foldl (\<lambda>targetName (key, val). replaceAll (''__'' @ key @ ''__'') val targetName)
       fileName context"

text \<open>\<open>targetName.replace(/\.hbs$/, '')\<close>\<close>

definition stripHbs :: "string \<Rightarrow> string" where
  "stripHbs s = (if startsWith (rev s) (rev ''.hbs'') then take (length s - 4) s else s)"

text \<open>
  \<open>Handlebars.compile(content)(context)\<close> is a parameter: a function from the template
  text and the context to the rendered text, or to the error it throws.

  \<open>copyTemplateFiles\<close> reads each directory when it reaches it, after the writes made so
  far, so on a target inside the template tree it can go on forever. The first argument
  bounds the depth of the recursion; \<open>OutOfFuel\<close> is the answer when the bound is reached.
\<close>

type_synonym renderer = "string \<Rightarrow> templateContext \<Rightarrow> error + string"

fun copyTemplateFiles ::
  "nat \<Rightarrow> renderer \<Rightarrow> filesystem \<Rightarrow> path \<Rightarrow> path \<Rightarrow> templateContext \<Rightarrow> error + filesystem" where
  "copyTemplateFiles 0 render fs templatePath targetPath context = Inl OutOfFuel"
| "copyTemplateFiles (Suc fuel) render fs templatePath targetPath context =
     await (readdir fs templatePath) (\<lambda>files.
       foldl (\<lambda>state (fileName, kind).
           await state (\<lambda>fs.
             let sourcePath = join templatePath [fileName];
                 targetName = stripHbs (substituteName context fileName);
                 targetFilePath = join targetPath [targetName]
             in case kind of
                  Dir \<Rightarrow>
                    await (ensureDir fs targetFilePath) (\<lambda>fs.
                      copyTemplateFiles fuel render fs sourcePath targetFilePath context)
                | File _ \<Rightarrow>
                    await (readFile fs sourcePath) (\<lambda>content.
                    await (render content context) (\<lambda>processed.
                      writeFile fs targetFilePath processed))))
         (Inr fs) files)"

section \<open>The new command\<close>

definition SUPPORTED_LANGUAGES :: "string list" where
  "SUPPORTED_LANGUAGES = [''python'', ''typescript'', ''go'', ''rust'']"

definition SUPPORTED_PATTERNS :: "string list" where
  "SUPPORTED_PATTERNS = [''basic'', ''enterprise'', ''microservices'']"

definition SUPPORTED_TRANSPORTS :: "string list" where
  "SUPPORTED_TRANSPORTS = [''stdio'', ''sse'', ''http'']"

text \<open>
  \<open>newCommand\<close> up to the point where the project structure is created, with the options
  \<open>--no-git --no-install\<close> (git and the package managers are external processes).
  \<open>packageRoot\<close> is what \<open>findPackageRoot\<close> found and \<open>cwd\<close> is \<open>process.cwd()\<close>. Every
  failure ends the process with status 1; the model returns the error.
\<close>

definition newCommand ::
  "nat \<Rightarrow> renderer \<Rightarrow> path \<Rightarrow> path \<Rightarrow> filesystem
     \<Rightarrow> string \<Rightarrow> string \<Rightarrow> string \<Rightarrow> string \<Rightarrow> error + filesystem" where
  "newCommand fuel render packageRoot cwd fs name lang pattern transport =
     (if lang \<notin> set SUPPORTED_LANGUAGES then Inl UnsupportedLanguage
      else if pattern \<notin> set SUPPORTED_PATTERNS then Inl UnsupportedPattern
      else if transport \<notin> set SUPPORTED_TRANSPORTS then Inl UnsupportedTransport
      else let projectPath = resolve cwd name in
        if pathExists fs projectPath then Inl DirectoryExists
        else await (ensureDir fs projectPath) (\<lambda>fs.
          let templatesRoot = join packageRoot [''templates''];
              templatePath = join templatesRoot [lang, pattern]
          in if pathExists fs templatePath
             then copyTemplateFiles fuel render fs templatePath projectPath
                    [(''projectName'', name),
                     (''projectNameSnake'', toSnakeCase name),
                     (''projectNamePascal'', toPascalCase name),
                     (''projectNameKebab'', toKebabCase name),
                     (''transport'', transport),
                     (''pattern'', pattern)]
             else generateProject fs projectPath name lang pattern transport))"

section \<open>Language detector\<close>

text \<open>The three commands that read a project carry the same \<open>detectLanguage\<close>.\<close>

definition detectLanguage :: "filesystem \<Rightarrow> path \<Rightarrow> string option" where
  "detectLanguage fs projectPath =
     (if pathExists fs (join projectPath [''pyproject.toml'']) then Some ''python''
      else if pathExists fs (join projectPath [''package.json'']) then Some ''typescript''
      else if pathExists fs (join projectPath [''go.mod'']) then Some ''go''
      else if pathExists fs (join projectPath [''Cargo.toml'']) then Some ''rust''
      else None)"

section \<open>The add command\<close>

datatype AddType = Tool | Resource | Prompt

definition parseAddType :: "string \<Rightarrow> AddType option" where
  "parseAddType type =
     (if type = ''tool'' then Some Tool
      else if type = ''resource'' then Some Resource
      else if type = ''prompt'' then Some Prompt
      else None)"

text \<open>\<open>w.charAt(0).toUpperCase() + w.slice(1)\<close>\<close>

fun upperFirst :: "string \<Rightarrow> string" where
  "upperFirst [] = []"
| "upperFirst (c # cs) = toUpperChar c # cs"

definition isHyphen :: "char \<Rightarrow> bool" where
  "isHyphen c = (c = CHR ''-'')"

definition generatePythonSnippet :: "AddType \<Rightarrow> string \<Rightarrow> string" where
  \<open>generatePythonSnippet type name =
     (let nameSnake = toLowerCase (replaceChar (CHR ''-'') (CHR ''_'') name) in
      case type of
        Tool \<Rightarrow>
       ''@server.tool()\<newline>'' @
       ''async def '' @ nameSnake @ ''(param: str) -> str:\<newline>'' @
       ''    """Description of '' @ name @ ''.\<newline>'' @
       ''\<newline>'' @
       ''    Args:\<newline>'' @
       ''        param: Description of parameter\<newline>'' @
       ''\<newline>'' @
       ''    Returns:\<newline>'' @
       ''        Description of return value\<newline>'' @
       ''    """\<newline>'' @
       ''    # Implementation here\<newline>'' @
       ''    return f"Result: {param}"''
      | Resource \<Rightarrow>
       ''@server.resource("resource://'' @ nameSnake @ ''")\<newline>'' @
       ''async def '' @ nameSnake @ ''_resource() -> str:\<newline>'' @
       ''    """Get '' @ name @ '' resource."""\<newline>'' @
       ''    return """\<newline>'' @
       ''    {\<newline>'' @
       ''        "key": "value"\<newline>'' @
       ''    }\<newline>'' @
       ''    """''
      | Prompt \<Rightarrow>
       ''@server.prompt()\<newline>'' @
       ''async def '' @ nameSnake @ ''_prompt() -> str:\<newline>'' @
       ''    """'' @ name @ '' prompt template."""\<newline>'' @
       ''    return """Your prompt template here.\<newline>'' @
       ''\<newline>'' @
       ''Use {{variable}} for template variables."""'')\<close>

definition generateTypeScriptSnippet :: "AddType \<Rightarrow> string \<Rightarrow> string" where
  \<open>generateTypeScriptSnippet type name =
     (case type of
        Tool \<Rightarrow>
       ''// Add to ListToolsRequestSchema handler:\<newline>'' @
       ''{\<newline>'' @
       ''  name: '' @ [CHR 0x27] @ name @ [CHR 0x27] @ '',\<newline>'' @
       ''  description: 'Description of '' @ name @ [CHR 0x27] @ '',\<newline>'' @
       ''  inputSchema: {\<newline>'' @
       ''    type: 'object',\<newline>'' @
       ''    properties: {\<newline>'' @
       ''      param: { type: 'string', description: 'Description of parameter' },\<newline>'' @
       ''    },\<newline>'' @
       ''    required: ['param'],\<newline>'' @
       ''  },\<newline>'' @
       ''}\<newline>'' @
       ''\<newline>'' @
       ''// Add to CallToolRequestSchema handler switch:\<newline>'' @
       ''case '' @ [CHR 0x27] @ name @ [CHR 0x27] @ '': {\<newline>'' @
       ''  const { param } = args as { param: string };\<newline>'' @
       ''  return { content: [{ type: 'text', text: `Result: ${param}` }] };\<newline>'' @
       ''}''
      | Resource \<Rightarrow>
       ''// Add to ListResourcesRequestSchema handler:\<newline>'' @
       ''{\<newline>'' @
       ''  uri: 'resource://'' @ name @ [CHR 0x27] @ '',\<newline>'' @
       ''  name: '' @ [CHR 0x27] @ name @ [CHR 0x27] @ '',\<newline>'' @
       ''  description: 'Description of '' @ name @ '' resource',\<newline>'' @
       ''  mimeType: 'application/json',\<newline>'' @
       ''}\<newline>'' @
       ''\<newline>'' @
       ''// Add to ReadResourceRequestSchema handler:\<newline>'' @
       ''if (uri === 'resource://'' @ name @ [CHR 0x27] @ '') {\<newline>'' @
       ''  return {\<newline>'' @
       ''    contents: [{\<newline>'' @
       ''      uri,\<newline>'' @
       ''      mimeType: 'application/json',\<newline>'' @
       ''      text: JSON.stringify({ key: 'value' }, null, 2),\<newline>'' @
       ''    }],\<newline>'' @
       ''  };\<newline>'' @
       ''}''
      | Prompt \<Rightarrow>
       ''// Add to ListPromptsRequestSchema handler:\<newline>'' @
       ''{\<newline>'' @
       ''  name: '' @ [CHR 0x27] @ name @ [CHR 0x27] @ '',\<newline>'' @
       ''  description: '' @ [CHR 0x27] @ name @ '' prompt template',\<newline>'' @
       ''}\<newline>'' @
       ''\<newline>'' @
       ''// Add to GetPromptRequestSchema handler:\<newline>'' @
       ''if (name === '' @ [CHR 0x27] @ name @ [CHR 0x27] @ '') {\<newline>'' @
       ''  return {\<newline>'' @
       ''    messages: [{\<newline>'' @
       ''      role: 'user',\<newline>'' @
       ''      content: { type: 'text', text: 'Your prompt template here.' },\<newline>'' @
       ''    }],\<newline>'' @
       ''  };\<newline>'' @
       ''}'')\<close>

definition generateGoSnippet :: "AddType \<Rightarrow> string \<Rightarrow> string" where
  \<open>generateGoSnippet type name =
     (let namePascal = concat (map upperFirst (split isHyphen name)) in
      case type of
        Tool \<Rightarrow>
       ''// Add tool registration\<newline>'' @
       ''s.AddTool(mcp.NewTool("'' @ name @ ''",\<newline>'' @
       ''    mcp.WithDescription("Description of '' @ name @ ''"),\<newline>'' @
       ''    mcp.WithString("param", mcp.Description("Description of parameter")),\<newline>'' @
       ''), '' @ toLowerCase namePascal @ ''Handler)\<newline>'' @
       ''\<newline>'' @
       ''// Add handler function\<newline>'' @
       ''func '' @ toLowerCase namePascal @ ''Handler(ctx context.Context, request mcp.CallToolRequest) (*mcp.CallToolResult, error) {\<newline>'' @
       ''    param, _ := request.Params.Arguments["param"].(string)\<newline>'' @
       ''    return mcp.NewToolResultText(fmt.Sprintf("Result: %s", param)), nil\<newline>'' @
       ''}''
      | Resource \<Rightarrow>
       ''// Resource support requires additional implementation in mcp-go''
      | Prompt \<Rightarrow>
       ''// Prompt support requires additional implementation in mcp-go'')\<close>

definition generateRustSnippet :: "AddType \<Rightarrow> string \<Rightarrow> string" where
  \<open>generateRustSnippet type name =
     (let nameSnake = toLowerCase (replaceChar (CHR ''-'') (CHR ''_'') name);
          namePascal = concat (map upperFirst (split isHyphen name)) in
      case type of
        Tool \<Rightarrow>
       ''#[derive(Debug, Serialize, Deserialize)]\<newline>'' @
       ''struct '' @ namePascal @ ''Args {\<newline>'' @
       ''    param: String,\<newline>'' @
       ''}\<newline>'' @
       ''\<newline>'' @
       ''#[tool(name = "'' @ name @ ''", description = "Description of '' @ name @ ''")]\<newline>'' @
       ''async fn '' @ nameSnake @ ''(args: '' @ namePascal @ ''Args) -> Result<String> {\<newline>'' @
       ''    Ok(format!("Result: {}", args.param))\<newline>'' @
       ''}\<newline>'' @
       ''\<newline>'' @
       ''// Add to server builder:\<newline>'' @
       ''// .tool('' @ nameSnake @ '')''
      | Resource \<Rightarrow>
       ''// Resource support - implement custom handler''
      | Prompt \<Rightarrow>
       ''// Prompt support - implement custom handler'')\<close>

text \<open>
  The commands act on the world: the file system and the lines written to the console
  (\<open>console.log\<close> and \<open>console.error\<close>; colours and the spinner are left out).
\<close>

record world =
  files :: filesystem
  console :: "string list"

definition log :: "string \<Rightarrow> world \<Rightarrow> world" where
  "log line w = w\<lparr>console := console w @ [line]\<rparr>"

definition addToPython :: "path \<Rightarrow> AddType \<Rightarrow> string \<Rightarrow> world \<Rightarrow> world" where
  "addToPython serverPath type name w =
     (let snippet = generatePythonSnippet type name in
      log snippet (log [] (log ''Add this to your server.py:'' (log [] w))))"

definition addToTypeScript :: "path \<Rightarrow> AddType \<Rightarrow> string \<Rightarrow> world \<Rightarrow> world" where
  "addToTypeScript serverPath type name w =
     (let snippet = generateTypeScriptSnippet type name in
      log snippet (log [] (log ''Add this to your src/index.ts:'' (log [] w))))"

definition addToGo :: "path \<Rightarrow> AddType \<Rightarrow> string \<Rightarrow> world \<Rightarrow> world" where
  "addToGo serverPath type name w =
     (let snippet = generateGoSnippet type name in
      log snippet (log [] (log ''Add this to your main.go:'' (log [] w))))"

definition addToRust :: "path \<Rightarrow> AddType \<Rightarrow> string \<Rightarrow> world \<Rightarrow> world" where
  "addToRust serverPath type name w =
     (let snippet = generateRustSnippet type name in
      log snippet (log [] (log ''Add this to your src/main.rs:'' (log [] w))))"

text \<open>
  \<open>addCommand\<close>: the exit status of the process (\<open>Inl\<close> the reason of a
  \<open>process.exit(1)\<close>) and the world it leaves.
\<close>

definition addCommand ::
  "path \<Rightarrow> string \<Rightarrow> string \<Rightarrow> string \<Rightarrow> world \<Rightarrow> (error + unit) \<times> world" where
  "addCommand cwd type name server w =
     (case parseAddType type of
        None \<Rightarrow>
          (Inl UnsupportedType,
           log ''Supported types: tool, resource, prompt'' (log (''Unsupported type: '' @ type) w))
      | Some t \<Rightarrow>
          let serverPath = resolve cwd server in
          if \<not> pathExists (files w) serverPath
          then (Inl PathNotFound,
                log (''Server path not found: '' @ pathString serverPath) w)
          else case detectLanguage (files w) serverPath of
            None \<Rightarrow>
              (Inl UnknownLanguage,
               log ''Make sure you are in an MCP server project directory''
                 (log ''Could not detect project language'' w))
          | Some lang \<Rightarrow>
              let w = log [] (log (''  Language: '' @ lang) (log (''  Name:     '' @ name)
                        (log (''  Type:     '' @ type) (log []
                        (log (''MCPForge - Adding '' @ type) (log [] w))))));
                  w = (if lang = ''python'' then addToPython serverPath t name w
                       else if lang = ''typescript'' then addToTypeScript serverPath t name w
                       else if lang = ''go'' then addToGo serverPath t name w
                       else if lang = ''rust'' then addToRust serverPath t name w
                       else w)
              in (Inr (),
                  log [] (log (''Edit the generated code in your server file to customize the ''
                                 @ type @ ''.'') (log [] w))))"

section \<open>Regular expressions\<close>

text \<open>
  The analyzers' regular expressions are sequences of quantified character classes with
  one capture group around one of them. \<open>matchSeq\<close> is the backtracking matcher of
  JavaScript on that fragment: a greedy quantifier tries the longest repetition first, a
  lazy one the shortest, and each gives way when the rest of the pattern fails. \<open>acc\<close>
  holds, reversed, what the quantifier at the head has consumed so far, and \<open>cap\<close> the
  text of the capture group; \<open>x+\<close> is \<open>x\<close> followed by \<open>x*\<close>. The result is the text of
  the capture group and the input after the match.
\<close>

datatype cls =
    Lit char       \<comment> \<open>the character itself\<close>
  | Space          \<comment> \<open>\<open>\s\<close>, white space with U+00A0\<close>
  | Word           \<comment> \<open>\<open>\w\<close>\<close>
  | WordOrHyphen   \<comment> \<open>\<open>[\w-]\<close>\<close>
  | Quote          \<comment> \<open>\<open>['"]\<close>\<close>
  | NotQuote       \<comment> \<open>\<open>[^'"]\<close>\<close>
  | Dot            \<comment> \<open>\<open>.\<close>, any character but a line terminator\<close>
  | AnyChar        \<comment> \<open>\<open>[\s\S]\<close>\<close>

definition is_word :: "char \<Rightarrow> bool" where
  "is_word c = (is_upper c \<or> is_lower c \<or> is_digit c \<or> c = CHR ''_'')"

definition is_space :: "char \<Rightarrow> bool" where
  "is_space c = ((9 \<le> (of_char c :: nat) \<and> (of_char c :: nat) \<le> 13) \<or> c = CHR '' ''
                 \<or> c = CHR 0xA0)"

definition is_quote :: "char \<Rightarrow> bool" where
  "is_quote c = (c = CHR 0x27 \<or> c = CHR 0x22)"

fun in_cls :: "cls \<Rightarrow> char \<Rightarrow> bool" where
  "in_cls (Lit x) c = (c = x)"
| "in_cls Space c = is_space c"
| "in_cls Word c = is_word c"
| "in_cls WordOrHyphen c = (is_word c \<or> c = CHR ''-'')"
| "in_cls Quote c = is_quote c"
| "in_cls NotQuote c = (\<not> is_quote c)"
| "in_cls Dot c = (c \<noteq> CHR 0x0A \<and> c \<noteq> CHR 0x0D)"
| "in_cls AnyChar c = True"

datatype quantifier = Once | Star | Plus | LazyStar

datatype item = Item cls quantifier bool  \<comment> \<open>the flag marks the capture group\<close>

type_synonym regex = "item list"

definition lit :: "string \<Rightarrow> regex" where
  "lit s = map (\<lambda>c. Item (Lit c) Once False) s"

fun matchSeq :: "regex \<Rightarrow> string \<Rightarrow> string \<Rightarrow> string \<Rightarrow> (string \<times> string) option" where
  "matchSeq [] acc cap s = Some (cap, s)"
| "matchSeq (Item c Once g # r) acc cap [] = None"
| "matchSeq (Item c Once g # r) acc cap (x # xs) =
     (if in_cls c x then matchSeq r [] (if g then [x] else cap) xs else None)"
| "matchSeq (Item c Plus g # r) acc cap [] = None"
| "matchSeq (Item c Plus g # r) acc cap (x # xs) =
     (if in_cls c x then matchSeq (Item c Star g # r) [x] cap xs else None)"
| "matchSeq (Item c Star g # r) acc cap [] = matchSeq r [] (if g then rev acc else cap) []"
| "matchSeq (Item c Star g # r) acc cap (x # xs) =
     (if in_cls c x
      then (case matchSeq (Item c Star g # r) (x # acc) cap xs of
              Some m \<Rightarrow> Some m
            | None \<Rightarrow> matchSeq r [] (if g then rev acc else cap) (x # xs))
      else matchSeq r [] (if g then rev acc else cap) (x # xs))"
| "matchSeq (Item c LazyStar g # r) acc cap [] =
     matchSeq r [] (if g then rev acc else cap) []"
| "matchSeq (Item c LazyStar g # r) acc cap (x # xs) =
     (case matchSeq r [] (if g then rev acc else cap) (x # xs) of
        Some m \<Rightarrow> Some m
      | None \<Rightarrow> if in_cls c x then matchSeq (Item c LazyStar g # r) (x # acc) cap xs
                else None)"

text \<open>
  \<open>content.matchAll(re)\<close> with the \<open>g\<close> flag, reduced to the capture group of every
  match: the leftmost match from the current position, then on from where it ended (one
  character further after an empty match). \<open>matchFrom re m s\<close> continues from the
  outcome \<open>m\<close> of the attempt to match at the start of \<open>s\<close>.
\<close>

fun matchFrom :: "regex \<Rightarrow> (string \<times> string) option \<Rightarrow> string \<Rightarrow> string list" where
  "matchFrom re None [] = []"
| "matchFrom re None (c # cs) = matchFrom re (matchSeq re [] [] cs) cs"
| "matchFrom re (Some (cap, rest)) s =
     cap # (if length rest < length s then matchFrom re (matchSeq re [] [] rest) rest
            else (case s of [] \<Rightarrow> [] | c # cs \<Rightarrow> matchFrom re (matchSeq re [] [] cs) cs))"

definition matchAll :: "regex \<Rightarrow> string \<Rightarrow> string list" where
  "matchAll re s = matchFrom re (matchSeq re [] [] s) s"

section \<open>Static analyzer\<close>

record ProjectAnalysis =
  name :: string
  language :: string
  tools :: "string list"
  resources :: "string list"
  prompts :: "string list"

text \<open>\<open>/@server\.tool\(\)\s*\n\s*async def (\w+)/g\<close>\<close>

definition pythonToolRe :: regex where
  "pythonToolRe =
     lit ''@server.tool()''
     @ [Item Space Star False, Item (Lit (CHR 0x0A)) Once False, Item Space Star False]
     @ lit ''async def '' @ [Item Word Plus True]"

text \<open>\<open>/@server\.resource\(['"](.*?)['"]\)/g\<close>\<close>

definition pythonResourceRe :: regex where
  "pythonResourceRe =
     lit ''@server.resource(''
     @ [Item Quote Once False, Item Dot LazyStar True, Item Quote Once False]
     @ lit '')''"

text \<open>\<open>/@server\.prompt\(\)\s*\n\s*async def (\w+)/g\<close>\<close>

definition pythonPromptRe :: regex where
  "pythonPromptRe =
     lit ''@server.prompt()''
     @ [Item Space Star False, Item (Lit (CHR 0x0A)) Once False, Item Space Star False]
     @ lit ''async def '' @ [Item Word Plus True]"

text \<open>\<open>/server\.tool\(\{[\s\S]*?name:\s*['"](\w+)['"]/g\<close>\<close>

definition typescriptToolRe :: regex where
  "typescriptToolRe =
     lit ''server.tool({'' @ [Item AnyChar LazyStar False] @ lit ''name:''
     @ [Item Space Star False, Item Quote Once False, Item Word Plus True,
        Item Quote Once False]"

text \<open>\<open>/server\.resource\(\{[\s\S]*?uri:\s*['"]([^'"]+)['"]/g\<close>\<close>

definition typescriptResourceRe :: regex where
  "typescriptResourceRe =
     lit ''server.resource({'' @ [Item AnyChar LazyStar False] @ lit ''uri:''
     @ [Item Space Star False, Item Quote Once False, Item NotQuote Plus True,
        Item Quote Once False]"

text \<open>\<open>/server\.prompt\(\{[\s\S]*?name:\s*['"](\w+)['"]/g\<close>\<close>

definition typescriptPromptRe :: regex where
  "typescriptPromptRe =
     lit ''server.prompt({'' @ [Item AnyChar LazyStar False] @ lit ''name:''
     @ [Item Space Star False, Item Quote Once False, Item Word Plus True,
        Item Quote Once False]"

text \<open>\<open>/mcp\.NewTool\(['"]([\w-]+)['"]/g\<close>\<close>

definition goToolRe :: regex where
  "goToolRe =
     lit ''mcp.NewTool(''
     @ [Item Quote Once False, Item WordOrHyphen Plus True, Item Quote Once False]"

text \<open>\<open>/#\[tool\(name\s*=\s*['"]([\w-]+)['"]/g\<close>\<close>

definition rustToolRe :: regex where
  "rustToolRe =
     lit ''#[tool(name'' @ [Item Space Star False] @ lit ''='' @
     [Item Space Star False, Item Quote Once False, Item WordOrHyphen Plus True,
      Item Quote Once False]"

definition findFile :: "filesystem \<Rightarrow> path \<Rightarrow> string \<Rightarrow> string option \<Rightarrow> path option" where
  "findFile fs basePath filename subdir =
     (let paths = (case subdir of
                     Some d \<Rightarrow> [join basePath [d, filename], join basePath [filename]]
                   | None \<Rightarrow> [join basePath [filename]]);
          projectName = replaceChar (CHR ''-'') (CHR ''_'') (basename basePath)
      in find (pathExists fs) (paths @ [join basePath [projectName, filename]]))"

definition analyzePython :: "filesystem \<Rightarrow> path \<Rightarrow> ProjectAnalysis \<Rightarrow> error + ProjectAnalysis" where
  "analyzePython fs projectPath analysis =
     (case findFile fs projectPath ''server.py'' None of
        None \<Rightarrow> Inr analysis
      | Some serverFile \<Rightarrow>
          await (readFile fs serverFile) (\<lambda>content.
            Inr (analysis\<lparr>
              tools := tools analysis @ matchAll pythonToolRe content,
              resources := resources analysis @ matchAll pythonResourceRe content,
              prompts := prompts analysis @ matchAll pythonPromptRe content\<rparr>)))"

definition analyzeTypeScript :: "filesystem \<Rightarrow> path \<Rightarrow> ProjectAnalysis \<Rightarrow> error + ProjectAnalysis" where
  "analyzeTypeScript fs projectPath analysis =
     (case findFile fs projectPath ''index.ts'' (Some ''src'') of
        None \<Rightarrow> Inr analysis
      | Some indexFile \<Rightarrow>
          await (readFile fs indexFile) (\<lambda>content.
            Inr (analysis\<lparr>
              tools := tools analysis @ matchAll typescriptToolRe content,
              resources := resources analysis @ matchAll typescriptResourceRe content,
              prompts := prompts analysis @ matchAll typescriptPromptRe content\<rparr>)))"

definition analyzeGo :: "filesystem \<Rightarrow> path \<Rightarrow> ProjectAnalysis \<Rightarrow> error + ProjectAnalysis" where
  "analyzeGo fs projectPath analysis =
     (let mainFile = join projectPath [''main.go''] in
      if \<not> pathExists fs mainFile then Inr analysis
      else await (readFile fs mainFile) (\<lambda>content.
             Inr (analysis\<lparr>tools := tools analysis @ matchAll goToolRe content\<rparr>)))"

definition analyzeRust :: "filesystem \<Rightarrow> path \<Rightarrow> ProjectAnalysis \<Rightarrow> error + ProjectAnalysis" where
  "analyzeRust fs projectPath analysis =
     (let mainFile = join projectPath [''src'', ''main.rs''] in
      if \<not> pathExists fs mainFile then Inr analysis
      else await (readFile fs mainFile) (\<lambda>content.
             Inr (analysis\<lparr>tools := tools analysis @ matchAll rustToolRe content\<rparr>)))"

definition analyzeProject :: "filesystem \<Rightarrow> path \<Rightarrow> string \<Rightarrow> error + ProjectAnalysis" where
  "analyzeProject fs projectPath lang =
     (let analysis = \<lparr>name = basename projectPath, language = lang,
                       tools = [], resources = [], prompts = []\<rparr>
      in if lang = ''python'' then analyzePython fs projectPath analysis
         else if lang = ''typescript'' then analyzeTypeScript fs projectPath analysis
         else if lang = ''go'' then analyzeGo fs projectPath analysis
         else if lang = ''rust'' then analyzeRust fs projectPath analysis
         else Inr analysis)"

section \<open>Structural validator\<close>

record ValidationResult =
  valid :: bool
  errors :: "string list"
  warnings :: "string list"

definition validateCommon :: "filesystem \<Rightarrow> path \<Rightarrow> ValidationResult \<Rightarrow> ValidationResult" where
  "validateCommon fs projectPath result =
     (let result = (if \<not> pathExists fs (join projectPath [''README.md''])
                    then
                      result\<lparr>warnings := warnings result
                           @ [''Missing README.md'']\<rparr> else result);
          result = (if \<not> pathExists fs (join projectPath [''.gitignore''])
                    then
                      result\<lparr>warnings := warnings result
                           @ [''Missing .gitignore'']\<rparr> else result)
      in if pathExists fs (join projectPath [''.env''])
         then
           result\<lparr>warnings := warnings result
                @ [''.env file found - ensure it is in .gitignore'']\<rparr>
         else result)"

text \<open>
  The loop over \<open>serverPaths\<close>: the first path that exists is read and checked for a
  tool; the flag says whether one was found.
\<close>

fun checkServerPaths ::
  "filesystem \<Rightarrow> path list \<Rightarrow> ValidationResult \<Rightarrow> error + (bool \<times> ValidationResult)" where
  "checkServerPaths fs [] result = Inr (False, result)"
| "checkServerPaths fs (serverPath # rest) result =
     (if pathExists fs serverPath
      then await (readFile fs serverPath) (\<lambda>content.
             Inr (True,
               if \<not> includesStr content ''@server.tool'' \<and> \<not> includesStr content ''.tool(''
               then
                 result\<lparr>warnings := warnings result
                      @ [''No tools defined in server'']\<rparr> else result))
      else checkServerPaths fs rest result)"

definition validatePython ::
  "filesystem \<Rightarrow> path \<Rightarrow> ValidationResult \<Rightarrow> error + ValidationResult" where
  "validatePython fs projectPath result =
     (let pyprojectPath = join projectPath [''pyproject.toml''] in
      if \<not> pathExists fs pyprojectPath then Inr (
        result\<lparr>errors := errors result
             @ [''Missing pyproject.toml''], valid := False\<rparr>)
      else await (readFile fs pyprojectPath) (\<lambda>pyproject.
        let result = (if \<not> includesStr pyproject ''mcp'' \<and> \<not> includesStr pyproject ''fastmcp''
                      then
                        result\<lparr>errors := errors result
                             @ [''Missing MCP dependency (mcp or fastmcp)''], valid := False\<rparr>
                      else result);
            result = (if \<not> includesStr pyproject ''requires-python''
                      then
                        result\<lparr>warnings := warnings result
                             @ [''Missing requires-python in pyproject.toml'']\<rparr>
                      else result);
            projectName = replaceChar (CHR ''-'') (CHR ''_'') (basename projectPath);
            serverPaths = [join projectPath [projectName, ''server.py''],
                           join projectPath [''src'', ''server.py''],
                           join projectPath [''server.py'']]
        in await (checkServerPaths fs serverPaths result) (\<lambda>(serverFound, result).
             Inr (if \<not> serverFound then
               result\<lparr>errors := errors result
                    @ [''Missing server.py file''], valid := False\<rparr>
                  else result))))"

text \<open>
  \<open>JSON.parse\<close> of the manifest and the lookup of \<open>'@modelcontextprotocol/sdk'\<close> among
  its \<open>dependencies\<close> and \<open>devDependencies\<close> are the parameter \<open>sdkDependency\<close>: from the
  text of \<open>package.json\<close> to whether the entry is there and truthy, or to the error
  thrown on the way.
\<close>

type_synonym manifestReader = "string \<Rightarrow> error + bool"

definition validateTypeScript ::
  "manifestReader \<Rightarrow> filesystem \<Rightarrow> path \<Rightarrow> ValidationResult \<Rightarrow> error + ValidationResult" where
  "validateTypeScript sdkDependency fs projectPath result =
     (let packagePath = join projectPath [''package.json''] in
      if \<not> pathExists fs packagePath then Inr (
        result\<lparr>errors := errors result
             @ [''Missing package.json''], valid := False\<rparr>)
      else await (readFile fs packagePath) (\<lambda>packageText.
           await (sdkDependency packageText) (\<lambda>hasSdk.
        let result = (if \<not> hasSdk
                      then
                        result\<lparr>errors := errors result
                             @ [''Missing MCP dependency (@modelcontextprotocol/sdk)''], valid := False\<rparr>
                      else result);
            result = (if \<not> pathExists fs (join projectPath [''tsconfig.json''])
                      then
                        result\<lparr>warnings := warnings result
                             @ [''Missing tsconfig.json'']\<rparr> else result);
            indexPath = join projectPath [''src'', ''index.ts'']
        in if \<not> pathExists fs indexPath then Inr (
          result\<lparr>errors := errors result
               @ [''Missing src/index.ts''], valid := False\<rparr>)
           else await (readFile fs indexPath) (\<lambda>content.
                  Inr (if \<not> includesStr content ''ListToolsRequestSchema''
                          \<and> \<not> includesStr content ''.tool(''
                       then result\<lparr>warnings := warnings result @ [''No tools defined in server'']\<rparr>
                       else result)))))"

definition validateGo ::
  "filesystem \<Rightarrow> path \<Rightarrow> ValidationResult \<Rightarrow> error + ValidationResult" where
  "validateGo fs projectPath result =
     (let goModPath = join projectPath [''go.mod''] in
      if \<not> pathExists fs goModPath then Inr (
        result\<lparr>errors := errors result
             @ [''Missing go.mod''], valid := False\<rparr>)
      else await (readFile fs goModPath) (\<lambda>goMod.
        let result = (if \<not> includesStr goMod ''mcp-go'' \<and> \<not> includesStr goMod ''go-sdk''
                      then
                        result\<lparr>errors := errors result
                             @ [''Missing MCP dependency (mcp-go or go-sdk)''], valid := False\<rparr>
                      else result);
            mainPath = join projectPath [''main.go'']
        in if \<not> pathExists fs mainPath then Inr (
          result\<lparr>errors := errors result
               @ [''Missing main.go''], valid := False\<rparr>)
           else await (readFile fs mainPath) (\<lambda>content.
                  Inr (if \<not> includesStr content ''AddTool''
                       then result\<lparr>warnings := warnings result @ [''No tools defined in server'']\<rparr>
                       else result))))"

definition validateRust ::
  "filesystem \<Rightarrow> path \<Rightarrow> ValidationResult \<Rightarrow> error + ValidationResult" where
  "validateRust fs projectPath result =
     (let cargoPath = join projectPath [''Cargo.toml''] in
      if \<not> pathExists fs cargoPath then Inr (
        result\<lparr>errors := errors result
             @ [''Missing Cargo.toml''], valid := False\<rparr>)
      else await (readFile fs cargoPath) (\<lambda>cargo.
        let result = (if \<not> includesStr cargo ''rmcp''
                      then
                        result\<lparr>errors := errors result
                             @ [''Missing MCP dependency (rmcp)''], valid := False\<rparr>
                      else result);
            mainPath = join projectPath [''src'', ''main.rs'']
        in if \<not> pathExists fs mainPath then Inr (
          result\<lparr>errors := errors result
               @ [''Missing src/main.rs''], valid := False\<rparr>)
           else await (readFile fs mainPath) (\<lambda>content.
                  Inr (if \<not> includesStr content ''#[tool''
                       then result\<lparr>warnings := warnings result @ [''No tools defined in server'']\<rparr>
                       else result))))"

definition validateProject ::
  "manifestReader \<Rightarrow> filesystem \<Rightarrow> path \<Rightarrow> string \<Rightarrow> error + ValidationResult" where
  "validateProject sdkDependency fs projectPath lang =
     (let result = validateCommon fs projectPath \<lparr>valid = True, errors = [], warnings = []\<rparr>
      in if lang = ''python'' then validatePython fs projectPath result
         else if lang = ''typescript'' then validateTypeScript sdkDependency fs projectPath result
         else if lang = ''go'' then validateGo fs projectPath result
         else if lang = ''rust'' then validateRust fs projectPath result
         else Inr result)"

section \<open>Auxiliary definitions\<close>

text \<open>
  The steps of \<open>matchSeq\<close>, \<open>startsWith\<close> and \<open>includesStr\<close>, each as a function of the
  outcome of the test it depends on. With them an evaluation is a sequence of rewrites
  on constructor patterns that pass the text under inspection on unchanged.
\<close>

fun onceStep :: "bool \<Rightarrow> regex \<Rightarrow> bool \<Rightarrow> char \<Rightarrow> string \<Rightarrow> string \<Rightarrow> (string \<times> string) option" where
  "onceStep True r g x cap xs = matchSeq r [] (if g then [x] else cap) xs"
| "onceStep False r g x cap xs = None"

fun plusStep :: "bool \<Rightarrow> cls \<Rightarrow> regex \<Rightarrow> bool \<Rightarrow> char \<Rightarrow> string \<Rightarrow> string \<Rightarrow> (string \<times> string) option" where
  "plusStep True c r g x cap xs = matchSeq (Item c Star g # r) [x] cap xs"
| "plusStep False c r g x cap xs = None"

fun firstOf :: "'a option \<Rightarrow> 'a option \<Rightarrow> 'a option" where
  "firstOf (Some m) alt = Some m"
| "firstOf None alt = alt"

fun starStep ::
  "bool \<Rightarrow> cls \<Rightarrow> regex \<Rightarrow> bool \<Rightarrow> string \<Rightarrow> char \<Rightarrow> string \<Rightarrow> string \<Rightarrow> (string \<times> string) option" where
  "starStep True c r g acc x cap xs =
     firstOf (matchSeq (Item c Star g # r) (x # acc) cap xs)
             (matchSeq r [] (if g then rev acc else cap) (x # xs))"
| "starStep False c r g acc x cap xs = matchSeq r [] (if g then rev acc else cap) (x # xs)"

fun lazyStep ::
  "(string \<times> string) option \<Rightarrow> bool \<Rightarrow> cls \<Rightarrow> regex \<Rightarrow> bool \<Rightarrow> string \<Rightarrow> char \<Rightarrow> string \<Rightarrow> string
     \<Rightarrow> (string \<times> string) option" where
  "lazyStep (Some m) b c r g acc x cap xs = Some m"
| "lazyStep None True c r g acc x cap xs = matchSeq (Item c LazyStar g # r) (x # acc) cap xs"
| "lazyStep None False c r g acc x cap xs = None"

fun startsStep :: "bool \<Rightarrow> string \<Rightarrow> string \<Rightarrow> bool" where
  "startsStep True cs ts = startsWith cs ts"
| "startsStep False cs ts = False"

fun includesStep :: "bool \<Rightarrow> string \<Rightarrow> string \<Rightarrow> bool" where
  "includesStep True cs t = True"
| "includesStep False cs t = includesStr cs t"

text \<open>
  \<open>returns P x\<close>: if the computation \<open>x\<close> returns a value, the value satisfies \<open>P\<close>. A
  validation result is consistent when \<open>valid\<close> says that there is no error.
\<close>

definition returns :: "('a \<Rightarrow> bool) \<Rightarrow> error + 'a \<Rightarrow> bool" where
  "returns P x = (case x of Inl e \<Rightarrow> True | Inr v \<Rightarrow> P v)"

definition consistent :: "ValidationResult \<Rightarrow> bool" where
  "consistent result = (valid result = (errors result = []))"

text \<open>
  What the validator takes for the manifest of a language, for the declaration of the MCP
  dependency in it, and for the places of the entry point, with the error it reports
  when the entry point is in none of them.
\<close>

definition manifestFile :: "string \<Rightarrow> string" where
  "manifestFile lang =
     (if lang = ''python'' then ''pyproject.toml''
      else if lang = ''typescript'' then ''package.json''
      else if lang = ''go'' then ''go.mod''
      else ''Cargo.toml'')"

definition declaresMcp :: "manifestReader \<Rightarrow> string \<Rightarrow> string \<Rightarrow> bool" where
  "declaresMcp sdkDependency lang text =
     (if lang = ''python'' then includesStr text ''mcp'' \<or> includesStr text ''fastmcp''
      else if lang = ''typescript'' then sdkDependency text = Inr True
      else if lang = ''go'' then includesStr text ''mcp-go'' \<or> includesStr text ''go-sdk''
      else includesStr text ''rmcp'')"

definition entryPointPaths :: "path \<Rightarrow> string \<Rightarrow> path list" where
  "entryPointPaths projectPath lang =
     (if lang = ''python''
      then [join projectPath
              [replaceChar (CHR ''-'') (CHR ''_'') (basename projectPath), ''server.py''],
            join projectPath [''src'', ''server.py''],
            join projectPath [''server.py'']]
      else if lang = ''typescript'' then [join projectPath [''src'', ''index.ts'']]
      else if lang = ''go'' then [join projectPath [''main.go'']]
      else [join projectPath [''src'', ''main.rs'']])"

definition missingEntryPoint :: "string \<Rightarrow> string" where
  "missingEntryPoint lang =
     (if lang = ''python'' then ''Missing server.py file''
      else if lang = ''typescript'' then ''Missing src/index.ts''
      else if lang = ''go'' then ''Missing main.go''
      else ''Missing src/main.rs'')"

text \<open>
  Stand-ins for the two parameters: a manifest reader that finds the dependency, and a
  template engine that leaves the text as it is.
\<close>

definition declaresSdk :: manifestReader where
  "declaresSdk packageText = Inr True"

definition verbatim :: renderer where
  "verbatim content context = Inr content"

text \<open>
  The segments of a name are the non-empty pieces between its separators; those of a
  kebab form are the pieces between its hyphens. \<open>capitalsStartSegments\<close> says that
  every capital of a name is the first character of a segment: the flag of
  \<open>capitalsStart\<close> tells whether the next character starts one.
\<close>

definition segments :: "string \<Rightarrow> string list" where
  "segments s = filter (\<lambda>w. w \<noteq> []) (split isNameSeparator s)"

definition hyphenSegments :: "string \<Rightarrow> string list" where
  "hyphenSegments s = filter (\<lambda>w. w \<noteq> []) (split (\<lambda>c. c = CHR ''-'') s)"

fun capitalsStart :: "bool \<Rightarrow> string \<Rightarrow> bool" where
  "capitalsStart b [] = True"
| "capitalsStart b (c # cs) =
     (if isNameSeparator c then capitalsStart True cs
      else (b \<or> \<not> is_upper c) \<and> capitalsStart False cs)"

definition capitalsStartSegments :: "string \<Rightarrow> bool" where
  "capitalsStartSegments s = capitalsStart True s"

text \<open>
  \<open>toPascalCase\<close> and \<open>toKebabCase\<close> character by character, for the proofs:
  \<open>pascalFrom\<close> capitalizes the character that starts a segment and lowers the others,
  and \<open>kebabChar\<close> is what one character of a name becomes in the kebab form (before
  the leading hyphen is dropped).
\<close>

fun pascalFrom :: "bool \<Rightarrow> string \<Rightarrow> string" where
  "pascalFrom b [] = []"
| "pascalFrom b (c # cs) =
     (if isNameSeparator c then pascalFrom True cs
      else (if b then toUpperChar c else toLowerChar c) # pascalFrom False cs)"

definition kebabChar :: "char \<Rightarrow> string" where
  "kebabChar c = (if is_upper c then [CHR ''-'', toLowerChar c]
                  else if c = CHR ''_'' then [CHR ''-''] else [c])"
section \<open>Evaluation\<close>

text \<open>
  The equations of \<open>matchSeq\<close>, \<open>startsWith\<close> and \<open>includesStr\<close> in terms of their steps.
  They are the code equations: an evaluation computes the same functions, faster.
\<close>

lemma matchSeq_code [code]:
  "matchSeq [] acc cap s = Some (cap, s)"
  "matchSeq (Item c Once g # r) acc cap [] = None"
  "matchSeq (Item c Once g # r) acc cap (x # xs) = onceStep (in_cls c x) r g x cap xs"
  "matchSeq (Item c Plus g # r) acc cap [] = None"
  "matchSeq (Item c Plus g # r) acc cap (x # xs) = plusStep (in_cls c x) c r g x cap xs"
  "matchSeq (Item c Star g # r) acc cap [] = matchSeq r [] (if g then rev acc else cap) []"
  "matchSeq (Item c Star g # r) acc cap (x # xs) = starStep (in_cls c x) c r g acc x cap xs"
  "matchSeq (Item c LazyStar g # r) acc cap [] = matchSeq r [] (if g then rev acc else cap) []"
  "matchSeq (Item c LazyStar g # r) acc cap (x # xs) =
     lazyStep (matchSeq r [] (if g then rev acc else cap) (x # xs)) (in_cls c x) c r g acc x cap xs"
proof -
  show "matchSeq (Item c Once g # r) acc cap (x # xs) = onceStep (in_cls c x) r g x cap xs"
    by (cases "in_cls c x") simp_all
  show "matchSeq (Item c Plus g # r) acc cap (x # xs) = plusStep (in_cls c x) c r g x cap xs"
    by (cases "in_cls c x") simp_all
  show "matchSeq (Item c Star g # r) acc cap (x # xs) = starStep (in_cls c x) c r g acc x cap xs"
    by (cases "in_cls c x"; cases "matchSeq (Item c Star g # r) (x # acc) cap xs") simp_all
  show "matchSeq (Item c LazyStar g # r) acc cap (x # xs) =
     lazyStep (matchSeq r [] (if g then rev acc else cap) (x # xs)) (in_cls c x) c r g acc x cap xs"
    by (cases "in_cls c x"; cases "matchSeq r [] (if g then rev acc else cap) (x # xs)") simp_all
qed simp_all

lemma startsWith_code [code]:
  "startsWith s [] = True"
  "startsWith [] (t # ts) = False"
  "startsWith (c # cs) (t # ts) = startsStep (c = t) cs ts"
  by (cases "c = t"; simp)+

lemma includesStr_code [code]:
  "includesStr [] t = (t = [])"
  "includesStr (c # cs) t = includesStep (startsWith (c # cs) t) cs t"
  by (cases "startsWith (c # cs) t"; simp)+

section \<open>Properties of the naming normalizer\<close>

lemma toUpperChar_toLowerChar: "toUpperChar (toLowerChar c) = toUpperChar c"
proof (cases "is_upper c")
  case True
  then have "toUpperChar (toLowerChar c) = char_of (of_char c :: nat)"
    by (simp add: toLowerChar_def toUpperChar_def is_upper_def is_lower_def)
  moreover from True have "toUpperChar c = c"
    by (simp add: toUpperChar_def is_upper_def is_lower_def)
  ultimately show ?thesis by simp
next
  case False
  then show ?thesis by (simp add: toLowerChar_def)
qed

lemma upper_fixed: "is_upper c \<Longrightarrow> toUpperChar c = c"
  by (simp add: toUpperChar_def is_upper_def is_lower_def)

lemma upper_lowered: "is_upper c \<Longrightarrow> toLowerChar c \<noteq> c"
proof
  assume u: "is_upper c" and e: "toLowerChar c = c"
  from u have "of_char (toLowerChar c) = (of_char c :: nat) + 32"
    by (simp add: toLowerChar_def is_upper_def)
  with e show False by simp
qed

lemma not_upper_lower: "\<not> is_upper c \<Longrightarrow> toLowerChar c = c"
  by (simp add: toLowerChar_def)

lemma lower_of_upper: "is_upper c \<Longrightarrow> is_lower (toLowerChar c)"
  by (simp add: toLowerChar_def is_upper_def is_lower_def)

lemma letter_plain:
  "is_upper c \<Longrightarrow> \<not> isNameSeparator c"
  "is_lower c \<Longrightarrow> \<not> isNameSeparator c"
  "is_lower c \<Longrightarrow> \<not> is_upper c"
  by (auto simp: isNameSeparator_def is_upper_def is_lower_def)

lemma stripLeading_pascalFrom:
  "pascalFrom True (replaceChar (CHR ''_'') (CHR ''-'') (stripLeading (CHR ''-'') s))
   = pascalFrom True (replaceChar (CHR ''_'') (CHR ''-'') s)"
  by (cases s) (simp_all add: replaceChar_def isNameSeparator_def)

lemma kebabChar_step:
  "map ((\<lambda>c. if c = CHR ''_'' then CHR ''-'' else c) \<circ> toLowerChar)
     (if is_upper c then [CHR ''-'', c] else [c]) = kebabChar c"
proof (cases "is_upper c")
  case True
  then have "is_lower (toLowerChar c)" by (rule lower_of_upper)
  then have "toLowerChar c \<noteq> CHR ''_''" by (auto simp: is_lower_def)
  with True show ?thesis by (simp add: kebabChar_def toLowerChar_def is_upper_def)
next
  case False
  then show ?thesis by (simp add: kebabChar_def not_upper_lower)
qed

lemma toKebabCase_chars:
  "replaceChar (CHR ''_'') (CHR ''-'') (toLowerCase (prefixUpper (CHR ''-'') s))
   = concat (map kebabChar s)"
proof -
  have "map ((\<lambda>c. if c = CHR ''_'' then CHR ''-'' else c) \<circ> toLowerChar)
          (concat (map (\<lambda>c. if is_upper c then [CHR ''-'', c] else [c]) s))
        = concat (map kebabChar s)"
    by (induction s) (simp_all only: list.map concat.simps map_append kebabChar_step)
  then show ?thesis
    by (simp add: replaceChar_def toLowerCase_def prefixUpper_def)
qed

lemma toPascalCase_split:
  "concat (map capitalize (splitAcc isNameSeparator cur s))
   = (if cur = [] then pascalFrom True s else capitalize (rev cur) @ pascalFrom False s)"
proof (induction s arbitrary: cur)
  case Nil
  show ?case by simp
next
  case (Cons c cs)
  show ?case
  proof (cases "isNameSeparator c")
    case True
    then show ?thesis by (simp add: Cons.IH)
  next
    case False
    show ?thesis
    proof (cases cur)
      case Nil
      with False show ?thesis by (simp add: Cons.IH toLowerCase_def)
    next
      case (Cons x xs)
      have "capitalize (rev (c # cur)) = capitalize (rev cur) @ [toLowerChar c]"
        by (cases "rev cur") (simp_all add: Cons toLowerCase_def)
      with False Cons show ?thesis by (simp add: Cons.IH)
    qed
  qed
qed

lemma toPascalCase_pascalFrom: "toPascalCase s = pascalFrom True s"
  by (simp add: toPascalCase_def split_def toPascalCase_split)

lemma toPascalCase_toKebabCase_chars:
  "toPascalCase (toKebabCase s) = pascalFrom True (concat (map kebabChar s))"
  by (simp add: toPascalCase_pascalFrom toKebabCase_def stripLeading_pascalFrom toKebabCase_chars)

lemma pascalFrom_kebab:
  "(pascalFrom b (concat (map kebabChar s)) = pascalFrom b s) = capitalsStart b s"
proof (induction s arbitrary: b)
  case Nil
  show ?case by simp
next
  case (Cons c cs)
  consider (sep) "isNameSeparator c" | (up) "is_upper c"
    | (other) "\<not> isNameSeparator c" "\<not> is_upper c"
    by blast
  then show ?case
  proof cases
    case sep
    then have "\<not> is_upper c" using letter_plain(1) by blast
    with sep have "kebabChar c = [CHR ''-''] \<or> kebabChar c = [c]"
      by (simp add: kebabChar_def)
    with sep have "pascalFrom b (kebabChar c @ concat (map kebabChar cs))
                   = pascalFrom True (concat (map kebabChar cs))"
      by (auto simp: isNameSeparator_def)
    with sep show ?thesis by (simp add: Cons.IH)
  next
    case up
    then have ns: "\<not> isNameSeparator c" "\<not> isNameSeparator (toLowerChar c)"
      using letter_plain lower_of_upper by blast+
    from up have k: "kebabChar c = [CHR ''-'', toLowerChar c]"
      by (simp add: kebabChar_def)
    have "pascalFrom b (kebabChar c @ concat (map kebabChar cs))
          = c # pascalFrom False (concat (map kebabChar cs))"
      using ns up by (simp add: k isNameSeparator_def toUpperChar_toLowerChar upper_fixed)
    moreover from up have "c \<noteq> toLowerChar c" using upper_lowered by metis
    ultimately show ?thesis using up ns
      by (simp add: upper_fixed Cons.IH)
  next
    case other
    then have k: "kebabChar c = [c]"
      by (simp add: kebabChar_def isNameSeparator_def)
    from other show ?thesis by (simp add: k Cons.IH)
  qed
qed

lemma toPascalCase_toKebabCase_iff:
  "(toPascalCase (toKebabCase s) = toPascalCase s) = capitalsStartSegments s"
  by (simp only: toPascalCase_toKebabCase_chars pascalFrom_kebab
        capitalsStartSegments_def toPascalCase_pascalFrom [of s])

lemma kebabChar_cases:
  "isNameSeparator c \<Longrightarrow> kebabChar c = [CHR ''-'']"
  "is_upper c \<Longrightarrow> kebabChar c = [CHR ''-'', toLowerChar c]"
  "\<not> isNameSeparator c \<Longrightarrow> \<not> is_upper c \<Longrightarrow> kebabChar c = [c]"
  using letter_plain(1) by (auto simp: kebabChar_def isNameSeparator_def)

lemma hyphenSegments_toKebabCase:
  "hyphenSegments (toKebabCase s)
   = filter (\<lambda>w. w \<noteq> []) (splitAcc (\<lambda>c. c = CHR ''-'') [] (concat (map kebabChar s)))"
proof -
  have "filter (\<lambda>w. w \<noteq> [])
          (splitAcc (\<lambda>c. c = CHR ''-'') []
             (replaceChar (CHR ''_'') (CHR ''-'') (stripLeading (CHR ''-'') x)))
        = filter (\<lambda>w. w \<noteq> [])
          (splitAcc (\<lambda>c. c = CHR ''-'') [] (replaceChar (CHR ''_'') (CHR ''-'') x))" for x
    by (cases x) (simp_all add: replaceChar_def)
  then show ?thesis
    by (simp add: hyphenSegments_def split_def toKebabCase_def toKebabCase_chars)
qed

lemma kebab_segments_lowered:
  "capitalsStart (cur = []) s \<Longrightarrow>
   filter (\<lambda>w. w \<noteq> [])
     (splitAcc (\<lambda>c. c = CHR ''-'') (map toLowerChar cur) (concat (map kebabChar s)))
   = map toLowerCase (filter (\<lambda>w. w \<noteq> []) (splitAcc isNameSeparator cur s))"
proof (induction s arbitrary: cur)
  case Nil
  show ?case by (simp add: toLowerCase_def rev_map)
next
  case (Cons c cs)
  consider (sep) "isNameSeparator c" | (up) "is_upper c"
    | (other) "\<not> isNameSeparator c" "\<not> is_upper c"
    by blast
  then show ?case
  proof cases
    case sep
    with Cons.prems have "capitalsStart ([] = ([]::string)) cs" by simp
    from Cons.IH [OF this] sep show ?thesis
      by (simp add: kebabChar_cases toLowerCase_def rev_map)
  next
    case up
    then have ns: "\<not> isNameSeparator c" and nh: "toLowerChar c \<noteq> CHR ''-''"
      using letter_plain lower_of_upper by (auto simp: isNameSeparator_def)
    from up ns Cons.prems have e: "cur = []" and "capitalsStart ([c] = []) cs" by simp_all
    from Cons.IH [OF this(2)] up ns nh e show ?thesis
      by (simp add: kebabChar_cases)
  next
    case other
    then have nh: "c \<noteq> CHR ''-''" by (simp add: isNameSeparator_def)
    from other Cons.prems have "capitalsStart (c # cur = []) cs" by simp
    from Cons.IH [OF this] other nh show ?thesis
      by (simp add: kebabChar_cases not_upper_lower)
  qed
qed

lemma kebab_segments_count:
  "(cur = [] \<longleftrightarrow> cur' = []) \<Longrightarrow>
   length (filter (\<lambda>w. w \<noteq> []) (splitAcc isNameSeparator cur' s))
     \<le> length (filter (\<lambda>w. w \<noteq> [])
                (splitAcc (\<lambda>c. c = CHR ''-'') cur (concat (map kebabChar s))))
   \<and> (\<not> capitalsStart (cur' = []) s \<longrightarrow>
      length (filter (\<lambda>w. w \<noteq> []) (splitAcc isNameSeparator cur' s))
        < length (filter (\<lambda>w. w \<noteq> [])
                   (splitAcc (\<lambda>c. c = CHR ''-'') cur (concat (map kebabChar s)))))"
proof (induction s arbitrary: cur cur')
  case Nil
  then show ?case by simp
next
  case (Cons c cs)
  consider (sep) "isNameSeparator c" | (up) "is_upper c"
    | (other) "\<not> isNameSeparator c" "\<not> is_upper c"
    by blast
  then show ?case
  proof cases
    case sep
    have "([]::string) = [] \<longleftrightarrow> ([]::string) = []" by simp
    from Cons.IH [OF this] sep Cons.prems show ?thesis
      by (simp add: kebabChar_cases)
  next
    case up
    then have ns: "\<not> isNameSeparator c" and nh: "toLowerChar c \<noteq> CHR ''-''"
      using letter_plain lower_of_upper by (auto simp: isNameSeparator_def)
    have "[toLowerChar c] = [] \<longleftrightarrow> c # cur' = []" by simp
    from Cons.IH [OF this] up ns nh Cons.prems show ?thesis
      by (auto simp: kebabChar_cases)
  next
    case other
    then have nh: "c \<noteq> CHR ''-''" by (simp add: isNameSeparator_def)
    have "c # cur = [] \<longleftrightarrow> c # cur' = []" by simp
    from Cons.IH [OF this] other nh show ?thesis
      by (simp add: kebabChar_cases)
  qed
qed

lemma hyphenSegments_toKebabCase_iff:
  "(hyphenSegments (toKebabCase s) = map toLowerCase (segments s)) = capitalsStartSegments s"
proof (cases "capitalsStartSegments s")
  case True
  then have "capitalsStart (([]::string) = []) s" by (simp add: capitalsStartSegments_def)
  from kebab_segments_lowered [OF this] True show ?thesis
    by (simp add: hyphenSegments_toKebabCase segments_def split_def)
next
  case False
  then have "\<not> capitalsStart (([]::string) = []) s" by (simp add: capitalsStartSegments_def)
  with kebab_segments_count [of "[]" "[]" s]
  have "length (segments s) < length (hyphenSegments (toKebabCase s))"
    by (simp add: hyphenSegments_toKebabCase segments_def split_def)
  then have "hyphenSegments (toKebabCase s) \<noteq> map toLowerCase (segments s)"
    by (metis length_map less_irrefl)
  with False show ?thesis by simp
qed

text \<open>
  C9. For every valid name \<open>N\<close>: the kebab form of \<open>N\<close> has the segments of \<open>N\<close>
  (lowered) exactly when every capital of \<open>N\<close> starts a segment, and exactly then
  \<open>toPascalCase (toKebabCase N)\<close> is \<open>toPascalCase N\<close>. So the two are equal whenever
  \<open>N\<close> and its kebab form decompose into the same segments, and only then: a capital
  inside a segment, as in \<open>myProject\<close>, starts a segment of its own in the kebab form
  and stays a capital there.
\<close>

theorem toPascalCase_toKebabCase:
  assumes "validName N"
  shows "(hyphenSegments (toKebabCase N) = map toLowerCase (segments N))
           = capitalsStartSegments N
       \<and> (toPascalCase (toKebabCase N) = toPascalCase N) = capitalsStartSegments N"
proof (intro conjI)
  show "(hyphenSegments (toKebabCase N) = map toLowerCase (segments N))
          = capitalsStartSegments N"
    by (rule hyphenSegments_toKebabCase_iff)
  show "(toPascalCase (toKebabCase N) = toPascalCase N) = capitalsStartSegments N"
    by (rule toPascalCase_toKebabCase_iff)
qed

theorem toPascalCase_toKebabCase_witness:
  "validName ''My-Project'' \<and> capitalsStartSegments ''My-Project''
   \<and> toKebabCase ''My-Project'' = ''my--project''
   \<and> hyphenSegments (toKebabCase ''My-Project'') = [''my'', ''project'']
   \<and> segments ''My-Project'' = [''My'', ''Project'']
   \<and> toPascalCase (toKebabCase ''My-Project'') = toPascalCase ''My-Project''
   \<and> validName ''myProject'' \<and> \<not> capitalsStartSegments ''myProject''
   \<and> toPascalCase (toKebabCase ''myProject'') \<noteq> toPascalCase ''myProject''"
proof -
  have a: "validName ''My-Project''" and b: "validName ''myProject''"
    by code_simp+
  have c: "capitalsStartSegments ''My-Project''"
    and d: "\<not> capitalsStartSegments ''myProject''"
    and e: "toKebabCase ''My-Project'' = ''my--project''"
    and f: "hyphenSegments (toKebabCase ''My-Project'') = [''my'', ''project'']"
    and g: "segments ''My-Project'' = [''My'', ''Project'']"
    by code_simp+
  from toPascalCase_toKebabCase [OF a] c
  have p: "toPascalCase (toKebabCase ''My-Project'') = toPascalCase ''My-Project''"
    by blast
  from toPascalCase_toKebabCase [OF b] d
  have q: "toPascalCase (toKebabCase ''myProject'') \<noteq> toPascalCase ''myProject''"
    by blast
  from a b c d e f g p q show ?thesis by blast
qed

section \<open>Analysis of a generated Python project\<close>

lemma names_hello_mcp:
  "toSnakeCase ''hello-mcp'' = ''hello_mcp''"
  "toPascalCase ''hello-mcp'' = ''HelloMcp''"
  "toKebabCase ''hello-mcp'' = ''hello-mcp''"
  by code_simp+

lemma python_basic_capabilities:
  "matchAll pythonToolRe (generatePythonBasicServer ''hello_mcp'' ''HelloMcp'') = [''hello'', ''add'']"
  "matchAll pythonResourceRe (generatePythonBasicServer ''hello_mcp'' ''HelloMcp'')
     = [''config://settings'']"
  "matchAll pythonPromptRe (generatePythonBasicServer ''hello_mcp'' ''HelloMcp'') = []"
  by code_simp+

lemma hello_python_basic_disk:
  "newCommand 0 render [''opt'', ''mcpforge''] [''home''] [] ''hello-mcp'' ''python'' ''basic'' ''stdio''
   = Inr [([''home''], Dir),
          ([''home'', ''hello-mcp''], Dir),
          ([''home'', ''hello-mcp'', ''hello_mcp''], Dir),
          ([''home'', ''hello-mcp'', ''pyproject.toml''], File (pythonPyprojectToml ''hello_mcp'')),
          ([''home'', ''hello-mcp'', ''hello_mcp'', ''__init__.py''], File (pythonInitPy ''HelloMcp'')),
          ([''home'', ''hello-mcp'', ''hello_mcp'', ''__main__.py''],
             File (pythonMainPy ''HelloMcp'' ''stdio'')),
          ([''home'', ''hello-mcp'', ''hello_mcp'', ''server.py''],
             File (generatePythonBasicServer ''hello_mcp'' ''HelloMcp'')),
          ([''home'', ''hello-mcp'', ''README.md''], File (pythonReadme ''hello_mcp'' ''HelloMcp'')),
          ([''home'', ''hello-mcp'', ''.gitignore''], File pythonGitignore)]"
  by (simp add: newCommand_def SUPPORTED_LANGUAGES_def SUPPORTED_PATTERNS_def
        SUPPORTED_TRANSPORTS_def resolve_def join_def split_def pathExists_def stat_def
        ensureDir_def await_def generateProject_def generatePythonProject_def Let_def
        names_hello_mcp writeFile_def dirname_def)

text \<open>
  C5. The new command, with no template tree installed, generates the basic Python project
  \<open>hello-mcp\<close>; the static analyzer then finds the tools \<open>hello\<close> and \<open>add\<close>, in this
  order, the resource \<open>config://settings\<close> and no prompt.
\<close>

theorem analyze_hello_mcp_python_basic:
  "await (newCommand 0 render [''opt'', ''mcpforge''] [''home''] []
            ''hello-mcp'' ''python'' ''basic'' ''stdio'')
     (\<lambda>fs. analyzeProject fs (resolve [''home''] ''hello-mcp'') ''python'')
   = Inr \<lparr>name = ''hello-mcp'', language = ''python'',
           tools = [''hello'', ''add''], resources = [''config://settings''], prompts = []\<rparr>"
  by (simp add: hello_python_basic_disk await_def analyzeProject_def analyzePython_def
        findFile_def resolve_def join_def split_def basename_def replaceChar_def
        pathExists_def stat_def readFile_def python_basic_capabilities Let_def)

section \<open>Analysis of a generated TypeScript project\<close>

lemma hello_typescript_basic_disk:
  "newCommand 0 render [''opt'', ''mcpforge''] [''home''] []
     ''hello-mcp'' ''typescript'' ''basic'' ''stdio''
   = Inr [([''home''], Dir),
          ([''home'', ''hello-mcp''], Dir),
          ([''home'', ''hello-mcp'', ''src''], Dir),
          ([''home'', ''hello-mcp'', ''package.json''], File (typescriptPackageJson ''hello-mcp'')),
          ([''home'', ''hello-mcp'', ''tsconfig.json''], File typescriptTsconfigJson),
          ([''home'', ''hello-mcp'', ''src'', ''index.ts''],
             File (generateTypeScriptBasicServer ''hello-mcp'' ''HelloMcp'')),
          ([''home'', ''hello-mcp'', ''README.md''], File (typescriptReadme ''HelloMcp'')),
          ([''home'', ''hello-mcp'', ''.gitignore''], File typescriptGitignore)]"
  by (simp add: newCommand_def SUPPORTED_LANGUAGES_def SUPPORTED_PATTERNS_def
        SUPPORTED_TRANSPORTS_def resolve_def join_def split_def pathExists_def stat_def
        ensureDir_def await_def generateProject_def generateTypeScriptProject_def Let_def
        names_hello_mcp writeFile_def dirname_def)

lemma typescript_basic_capabilities:
  "matchAll typescriptToolRe (generateTypeScriptBasicServer ''hello-mcp'' ''HelloMcp'') = []"
  "matchAll typescriptResourceRe (generateTypeScriptBasicServer ''hello-mcp'' ''HelloMcp'') = []"
  "matchAll typescriptPromptRe (generateTypeScriptBasicServer ''hello-mcp'' ''HelloMcp'') = []"
  by code_simp+

lemma typescript_basic_emitted:
  "includesStr (generateTypeScriptBasicServer ''hello-mcp'' ''HelloMcp'')
     (''name: '' @ [CHR 0x27] @ ''hello'' @ [CHR 0x27])"
  "includesStr (generateTypeScriptBasicServer ''hello-mcp'' ''HelloMcp'')
     (''name: '' @ [CHR 0x27] @ ''add'' @ [CHR 0x27])"
  "includesStr (generateTypeScriptBasicServer ''hello-mcp'' ''HelloMcp'')
     (''uri: '' @ [CHR 0x27] @ ''config://settings'' @ [CHR 0x27])"
  by code_simp+

text \<open>
  C1 fails for TypeScript: the generated \<open>src/index.ts\<close> lists its tools \<open>hello\<close> and \<open>add\<close>
  and its resource \<open>config://settings\<close> in the handlers of \<open>ListToolsRequestSchema\<close> and
  \<open>ListResourcesRequestSchema\<close>, and the analyzer looks for \<open>server.tool({\<close>,
  \<open>server.resource({\<close> and \<open>server.prompt({\<close>, which the file does not contain. The
  analysis of the project just generated is empty.
\<close>

theorem analyze_hello_mcp_typescript_basic:
  "await (newCommand 0 render [''opt'', ''mcpforge''] [''home''] []
            ''hello-mcp'' ''typescript'' ''basic'' ''stdio'')
     (\<lambda>fs. analyzeProject fs (resolve [''home''] ''hello-mcp'') ''typescript'')
   = Inr \<lparr>name = ''hello-mcp'', language = ''typescript'',
           tools = [], resources = [], prompts = []\<rparr>
   \<and> includesStr (generateTypeScriptBasicServer ''hello-mcp'' ''HelloMcp'')
         (''name: '' @ [CHR 0x27] @ ''hello'' @ [CHR 0x27])
   \<and> includesStr (generateTypeScriptBasicServer ''hello-mcp'' ''HelloMcp'')
         (''name: '' @ [CHR 0x27] @ ''add'' @ [CHR 0x27])
   \<and> includesStr (generateTypeScriptBasicServer ''hello-mcp'' ''HelloMcp'')
         (''uri: '' @ [CHR 0x27] @ ''config://settings'' @ [CHR 0x27])"
  by (simp add: hello_typescript_basic_disk await_def analyzeProject_def analyzeTypeScript_def
        findFile_def resolve_def join_def split_def basename_def replaceChar_def
        pathExists_def stat_def readFile_def typescript_basic_capabilities
        typescript_basic_emitted [simplified] Let_def)

section \<open>Names that are not in snake case already\<close>

lemma names_MyProject:
  "toSnakeCase ''MyProject'' = ''my_project''"
  "toPascalCase ''MyProject'' = ''Myproject''"
  "toKebabCase ''MyProject'' = ''my-project''"
  by code_simp+

lemma MyProject_python_enterprise_disk:
  "newCommand 0 render [''opt'', ''mcpforge''] [''home''] []
     ''MyProject'' ''python'' ''enterprise'' ''stdio''
   = Inr [([''home''], Dir),
          ([''home'', ''MyProject''], Dir),
          ([''home'', ''MyProject'', ''my_project''], Dir),
          ([''home'', ''MyProject'', ''pyproject.toml''], File (pythonPyprojectToml ''my_project'')),
          ([''home'', ''MyProject'', ''my_project'', ''__init__.py''],
             File (pythonInitPy ''Myproject'')),
          ([''home'', ''MyProject'', ''my_project'', ''__main__.py''],
             File (pythonMainPy ''Myproject'' ''stdio'')),
          ([''home'', ''MyProject'', ''my_project'', ''server.py''],
             File (generatePythonEnterpriseServer ''my_project'' ''Myproject'')),
          ([''home'', ''MyProject'', ''README.md''], File (pythonReadme ''my_project'' ''Myproject'')),
          ([''home'', ''MyProject'', ''.gitignore''], File pythonGitignore)]"
  by (simp add: newCommand_def SUPPORTED_LANGUAGES_def SUPPORTED_PATTERNS_def
        SUPPORTED_TRANSPORTS_def resolve_def join_def split_def pathExists_def stat_def
        ensureDir_def await_def generateProject_def generatePythonProject_def Let_def
        names_MyProject writeFile_def dirname_def)

lemma pyproject_my_project:
  "includesStr (pythonPyprojectToml ''my_project'') ''mcp''"
  "includesStr (pythonPyprojectToml ''my_project'') ''requires-python''"
  by code_simp+

text \<open>
  C4 fails for Python on the name \<open>MyProject\<close>: the generator writes the server to
  \<open>MyProject/my_project/server.py\<close>, the snake-case form of the name, and the validator
  looks for it in \<open>MyProject/MyProject/server.py\<close> (the directory name with hyphens
  turned into underscores), \<open>MyProject/src/server.py\<close> and \<open>MyProject/server.py\<close>. The
  enterprise project just generated is reported invalid, with one error.
\<close>

theorem validate_MyProject_python_enterprise:
  "await (newCommand 0 render [''opt'', ''mcpforge''] [''home''] []
            ''MyProject'' ''python'' ''enterprise'' ''stdio'')
     (\<lambda>fs. validateProject sdkDependency fs (resolve [''home''] ''MyProject'') ''python'')
   = Inr \<lparr>valid = False, errors = [''Missing server.py file''], warnings = []\<rparr>"
  by (simp add: MyProject_python_enterprise_disk await_def validateProject_def
        validateCommon_def validatePython_def resolve_def join_def split_def basename_def
        replaceChar_def pathExists_def stat_def readFile_def pyproject_my_project Let_def)

section \<open>Patterns and the generators\<close>

text \<open>
  C6. Procedural generation, the path taken when no template tree exists, writes for the
  pattern \<open>microservices\<close> exactly what it writes for \<open>basic\<close>: the same files with the
  same contents (or fails with the same error), for every language, project name and
  transport.
\<close>

theorem generateProject_microservices_is_basic:
  "generateProject fs projectPath projectName lang ''microservices'' transport
   = generateProject fs projectPath projectName lang ''basic'' transport"
  by (simp add: generateProject_def generatePythonProject_def generateTypeScriptProject_def
        generateGoProject_def generateRustProject_def Let_def)

section \<open>What the enterprise pattern adds\<close>

lemma includesStr_iff: "includesStr s t \<longleftrightarrow> (\<exists>a b. s = a @ t @ b)"
proof (induction s)
  case Nil
  show ?case by auto
next
  case (Cons c cs)
  have sw: "startsWith u t \<longleftrightarrow> (\<exists>b. u = t @ b)" for u
    by (induction u t rule: startsWith.induct) auto
  show ?case
  proof
    assume "includesStr (c # cs) t"
    then consider "startsWith (c # cs) t" | "includesStr cs t" by auto
    then show "\<exists>a b. c # cs = a @ t @ b"
    proof cases
      case 1
      then obtain b where "c # cs = t @ b" using sw by blast
      then have "c # cs = [] @ t @ b" by simp
      then show ?thesis by blast
    next
      case 2
      then obtain a b where "cs = a @ t @ b" using Cons.IH by blast
      then have "c # cs = (c # a) @ t @ b" by simp
      then show ?thesis by blast
    qed
  next
    assume "\<exists>a b. c # cs = a @ t @ b"
    then obtain a b where ab: "c # cs = a @ t @ b" by blast
    show "includesStr (c # cs) t"
    proof (cases a)
      case Nil
      with ab have "startsWith (c # cs) t" using sw by auto
      then show ?thesis by simp
    next
      case (Cons x a')
      with ab have "cs = a' @ t @ b" by simp
      then have "includesStr cs t" using Cons.IH by blast
      then show ?thesis by simp
    qed
  qed
qed

lemma includesStr_skip: "includesStr rest t \<Longrightarrow> includesStr (v @ rest) t"
  unfolding includesStr_iff
proof -
  assume "\<exists>a b. rest = a @ t @ b"
  then obtain a b where "rest = a @ t @ b" by blast
  then have "v @ rest = (v @ a) @ t @ b" by simp
  then show "\<exists>a b. v @ rest = a @ t @ b" by blast
qed

lemma includesStr_in1: "includesStr a t \<Longrightarrow> includesStr (a @ rest) t"
  unfolding includesStr_iff
proof -
  assume "\<exists>x y. a = x @ t @ y"
  then obtain x y where "a = x @ t @ y" by blast
  then have "a @ rest = x @ t @ (y @ rest)" by simp
  then show "\<exists>x y. a @ rest = x @ t @ y" by blast
qed

lemma includesStr_in2: "includesStr (a @ b) t \<Longrightarrow> includesStr (a @ b @ rest) t"
  using includesStr_in1 [of "a @ b" t rest] by simp

text \<open>
  A text \<open>t\<close> does not occur in a text made of lines when it has no line break and
  occurs in no line. In a line \<open>a @ n @ b\<close> with a name \<open>n\<close> in it, \<open>t\<close> does not occur
  when one of its characters, \<open>d\<close>, is not in the name, and what \<open>t\<close> has up to \<open>d\<close>
  is not in \<open>a\<close> and what it has from \<open>d\<close> on is not in \<open>b\<close>.
\<close>

lemma append_eq_cases:
  assumes "a @ b = c @ d"
  obtains w where "a = c @ w" "w @ b = d" | w where "a @ w = c" "b = w @ d"
  using assms by (auto simp: append_eq_append_conv2)

lemma notIncl_line:
  assumes nl: "CHR 0x0A \<notin> set t" and l: "l \<noteq> [] \<and> last l = CHR 0x0A"
    and a: "\<not> includesStr l t" and b: "\<not> includesStr rest t"
  shows "\<not> includesStr (l @ rest) t"
proof
  assume "includesStr (l @ rest) t"
  then obtain u v where "l @ rest = u @ t @ v" unfolding includesStr_iff by blast
  then show False
  proof (cases rule: append_eq_cases)
    case (1 w)
    from 1(2) show False
    proof (cases rule: append_eq_cases)
      case (1 x)
      with \<open>l = u @ w\<close> have "l = u @ t @ x" by simp
      with a show False unfolding includesStr_iff by blast
    next
      case (2 x)
      show False
      proof (cases "w = []")
        case True
        with 2 have "rest = [] @ t @ v" by simp
        with b show False unfolding includesStr_iff by blast
      next
        case False
        with \<open>l = u @ w\<close> l have "last w = CHR 0x0A" by simp
        with False have "CHR 0x0A \<in> set w" using last_in_set by metis
        with 2 nl show False by auto
      qed
    qed
  next
    case (2 w)
    with b show False unfolding includesStr_iff by blast
  qed
qed

lemma notIncl_hole0:
  assumes d: "d \<notin> set n"
    and a: "\<not> includesStr a (p @ [d])" and b: "\<not> includesStr b (d # q)"
  shows "\<not> includesStr (a @ n @ b) (p @ d # q)"
proof
  assume "includesStr (a @ n @ b) (p @ d # q)"
  then obtain u v where "a @ n @ b = u @ (p @ d # q) @ v" unfolding includesStr_iff by blast
  then have e: "a @ (n @ b) = (u @ p) @ (d # q @ v)" by simp
  have nb: False if "n @ b = x @ (d # q @ v)" for x
    using that
  proof (cases rule: append_eq_cases)
    case (1 y)
    show False
    proof (cases y)
      case Nil
      with 1 have "b = [] @ (d # q) @ v" by simp
      with b show False unfolding includesStr_iff by blast
    next
      case (Cons z zs)
      with 1 have "d \<in> set n" by simp
      with d show False by simp
    qed
  next
    case (2 y)
    then have "b = y @ (d # q) @ v" by simp
    with b show False unfolding includesStr_iff by blast
  qed
  from e show False
  proof (cases rule: append_eq_cases)
    case (1 w)
    show False
    proof (cases w)
      case Nil
      with 1 have "n @ b = [] @ (d # q @ v)" by simp
      then show False by (rule nb)
    next
      case (Cons z zs)
      with 1 have "a = u @ (p @ [d]) @ zs" by simp
      with a show False unfolding includesStr_iff by blast
    qed
  next
    case (2 w)
    then show False using nb by blast
  qed
qed

lemma notIncl_hole:
  assumes t: "t = p @ d # q" and nl: "CHR 0x0A \<notin> set t" and d: "d \<notin> set n"
    and l: "b \<noteq> [] \<and> last b = CHR 0x0A"
    and a: "\<not> includesStr a (p @ [d])" and b: "\<not> includesStr b (d # q)"
    and r: "\<not> includesStr rest t"
  shows "\<not> includesStr (a @ n @ b @ rest) t"
proof -
  from l have "a @ n @ b \<noteq> [] \<and> last (a @ n @ b) = CHR 0x0A" by simp
  moreover have "\<not> includesStr (a @ n @ b) t"
    unfolding t using d a b by (rule notIncl_hole0)
  ultimately have "\<not> includesStr ((a @ n @ b) @ rest) t"
    using nl r notIncl_line by blast
  then show ?thesis by simp
qed

lemma notIncl_hole2:
  assumes t: "t = p @ d # q" and nl: "CHR 0x0A \<notin> set t" and d: "d \<notin> set n"
    and l: "b \<noteq> [] \<and> last b = CHR 0x0A"
    and a: "\<not> includesStr (a1 @ a2) (p @ [d])" and b: "\<not> includesStr b (d # q)"
    and r: "\<not> includesStr rest t"
  shows "\<not> includesStr (a1 @ a2 @ n @ b @ rest) t"
  using notIncl_hole [OF t nl d l a b r] by simp

lemma notIncl_hole3:
  assumes t: "t = p @ d # q" and nl: "CHR 0x0A \<notin> set t" and d: "d \<notin> set n"
    and l: "b1 @ b2 \<noteq> [] \<and> last (b1 @ b2) = CHR 0x0A"
    and a: "\<not> includesStr (a1 @ a2) (p @ [d])" and b: "\<not> includesStr (b1 @ b2) (d # q)"
    and r: "\<not> includesStr rest t"
  shows "\<not> includesStr (a1 @ a2 @ n @ b1 @ b2 @ rest) t"
  using notIncl_hole [OF t nl d l a b r] by simp

text \<open>The three forms of a valid name are made of name characters.\<close>

lemma upper_of_lower:
  assumes "is_lower c"
  shows "is_upper (toUpperChar c)"
proof -
  from assms have "(of_char c :: nat) - 32 < 256" "65 \<le> (of_char c :: nat) - 32"
    "(of_char c :: nat) - 32 \<le> 90"
    by (auto simp: is_lower_def)
  with assms show ?thesis
    by (simp add: toUpperChar_def is_upper_def)
qed

lemma isNameChar_case:
  assumes "isNameChar c"
  shows "isNameChar (toLowerChar c)" "isNameChar (toUpperChar c)"
proof -
  show "isNameChar (toLowerChar c)"
  proof (cases "is_upper c")
    case True
    then show ?thesis using lower_of_upper by (simp add: isNameChar_def)
  next
    case False
    with assms show ?thesis by (simp add: not_upper_lower)
  qed
  show "isNameChar (toUpperChar c)"
  proof (cases "is_lower c")
    case True
    then show ?thesis using upper_of_lower by (simp add: isNameChar_def)
  next
    case False
    with assms show ?thesis by (simp add: toUpperChar_def)
  qed
qed

lemma isNameChar_prefixUpper:
  assumes "isNameChar sep" "\<forall>c\<in>set s. isNameChar c"
  shows "\<forall>c\<in>set (stripLeading x (toLowerCase (prefixUpper sep s))). isNameChar c"
proof -
  from assms have "\<forall>c\<in>set (prefixUpper sep s). isNameChar c"
    by (auto simp: prefixUpper_def split: if_splits)
  then have l: "\<forall>c\<in>set (toLowerCase (prefixUpper sep s)). isNameChar c"
    by (auto simp: toLowerCase_def isNameChar_case)
  have "set (stripLeading x u) \<subseteq> set u" for u
    by (cases u) auto
  with l show ?thesis by blast
qed

lemma isNameChar_pascalFrom:
  "\<forall>c\<in>set s. isNameChar c \<Longrightarrow> \<forall>c\<in>set (pascalFrom b s). isNameChar c"
  by (induction s arbitrary: b) (auto simp: isNameChar_case)

lemma valid_forms:
  assumes "validName N" "\<not> isNameChar d"
  shows "d \<notin> set (toSnakeCase N)" "d \<notin> set (toKebabCase N)" "d \<notin> set (toPascalCase N)"
proof -
  from assms have v: "\<forall>c\<in>set N. isNameChar c"
    by (simp add: validName_def list_all_iff)
  have sep: "isNameChar (CHR ''-'')" "isNameChar (CHR ''_'')"
    by (simp_all add: isNameChar_def)
  from isNameChar_prefixUpper [OF sep(2) v] sep
  have "\<forall>c\<in>set (toSnakeCase N). isNameChar c"
    by (auto simp: toSnakeCase_def replaceChar_def)
  with assms show "d \<notin> set (toSnakeCase N)" by blast
  from isNameChar_prefixUpper [OF sep(1) v] sep
  have "\<forall>c\<in>set (toKebabCase N). isNameChar c"
    by (auto simp: toKebabCase_def replaceChar_def)
  with assms show "d \<notin> set (toKebabCase N)" by blast
  from isNameChar_pascalFrom [OF v]
  have "\<forall>c\<in>set (toPascalCase N). isNameChar c"
    by (simp add: toPascalCase_pascalFrom)
  with assms show "d \<notin> set (toPascalCase N)" by blast
qed

lemma python_enterprise_markers:
  \<open>includesStr (generatePythonEnterpriseServer nameSnake namePascal)
     (''@asynccontextmanager\<newline>async def lifespan(server: FastMCP)'')\<close>
  \<open>includesStr (generatePythonEnterpriseServer nameSnake namePascal)
     (''    lifespan=lifespan,'')\<close>
  \<open>includesStr (generatePythonEnterpriseServer nameSnake namePascal)
     (''@server.tool()\<newline>async def health_check()'')\<close>
  \<open>includesStr (generatePythonEnterpriseServer nameSnake namePascal)
     (''if os.getenv("OAUTH2_ENABLED"):\<newline>    server.use_auth(OAuth2Provider('')\<close>
  \<open>includesStr (generatePythonEnterpriseServer nameSnake namePascal)
     (''@server.prompt()\<newline>async def system_prompt()'')\<close>
  \<open>includesStr (generatePythonEnterpriseServer nameSnake namePascal)
     (''@server.tool()\<newline>async def hello('')\<close>
  \<open>includesStr (generatePythonEnterpriseServer nameSnake namePascal)
     (''@server.resource("config://settings")'')\<close>
  unfolding generatePythonEnterpriseServer_def
  by ((rule includesStr_in1; (code_simp; fail)) | (rule includesStr_in2; (code_simp; fail))
      | rule includesStr_skip)+

lemma typescript_enterprise_markers:
  \<open>includesStr (generateTypeScriptEnterpriseServer nameKebab namePascal)
     (''console.error('Starting '')\<close>
  \<open>includesStr (generateTypeScriptEnterpriseServer nameKebab namePascal)
     (''        name: 'health_check',\<newline>        description: 'Check server health status','')\<close>
  \<open>includesStr (generateTypeScriptEnterpriseServer nameKebab namePascal)
     (''server.setRequestHandler(ListPromptsRequestSchema'')\<close>
  \<open>includesStr (generateTypeScriptEnterpriseServer nameKebab namePascal)
     (''        name: 'system',\<newline>        description: 'System prompt for this server','')\<close>
  \<open>includesStr (generateTypeScriptEnterpriseServer nameKebab namePascal)
     (''        name: 'hello',\<newline>        description: 'Say hello to someone','')\<close>
  \<open>includesStr (generateTypeScriptEnterpriseServer nameKebab namePascal)
     (''        uri: 'config://settings','')\<close>
  unfolding generateTypeScriptEnterpriseServer_def
  by ((rule includesStr_in1; (code_simp; fail)) | (rule includesStr_in2; (code_simp; fail))
      | rule includesStr_skip)+

lemma python_enterprise_without:
  assumes \<open>CHR '' '' \<notin> set nameSnake\<close>
    and \<open>CHR '' '' \<notin> set namePascal\<close>
  shows \<open>\<not> includesStr (generatePythonEnterpriseServer nameSnake namePascal)
       (''async def add('')\<close>
proof -
  have t: \<open>''async def add(''
      = ''async'' @ CHR '' '' # (''def add('')\<close>
    by simp
  have nl: \<open>CHR 0x0A \<notin> set (''async def add('')\<close>
    by simp
  note hole = notIncl_hole [OF t nl] notIncl_hole2 [OF t nl] notIncl_hole3 [OF t nl]
  show \<open>\<not> includesStr (generatePythonEnterpriseServer nameSnake namePascal)
       (''async def add('')\<close>
    unfolding generatePythonEnterpriseServer_def
    by ((rule notIncl_line [OF nl], (code_simp; fail), (code_simp; fail))
        | (rule hole [OF assms(1)] hole [OF assms(2)],
           (code_simp; fail), (code_simp; fail), (code_simp; fail))
        | (code_simp; fail))+
qed

lemma typescript_enterprise_without:
  assumes \<open>CHR '' '' \<notin> set nameKebab\<close>
    and \<open>CHR '' '' \<notin> set namePascal\<close>
    and \<open>CHR ''.'' \<notin> set nameKebab\<close>
    and \<open>CHR ''.'' \<notin> set namePascal\<close>
  shows \<open>\<not> includesStr (generateTypeScriptEnterpriseServer nameKebab namePascal)
       (''description: 'Add two numbers','')\<close>
    and \<open>\<not> includesStr (generateTypeScriptEnterpriseServer nameKebab namePascal)
       (''case 'add':'')\<close>
    and \<open>\<not> includesStr (generateTypeScriptEnterpriseServer nameKebab namePascal)
       (''process.env'')\<close>
proof -
  have t: \<open>''description: 'Add two numbers',''
      = ''description:'' @ CHR '' '' # ([CHR 0x27] @ ''Add two numbers','')\<close>
    by simp
  have nl: \<open>CHR 0x0A \<notin> set (''description: 'Add two numbers','')\<close>
    by simp
  note hole = notIncl_hole [OF t nl] notIncl_hole2 [OF t nl] notIncl_hole3 [OF t nl]
  show \<open>\<not> includesStr (generateTypeScriptEnterpriseServer nameKebab namePascal)
       (''description: 'Add two numbers','')\<close>
    unfolding generateTypeScriptEnterpriseServer_def
    by ((rule notIncl_line [OF nl], (code_simp; fail), (code_simp; fail))
        | (rule hole [OF assms(1)] hole [OF assms(2)],
           (code_simp; fail), (code_simp; fail), (code_simp; fail))
        | (code_simp; fail))+
  have t: \<open>''case 'add':''
      = ''case'' @ CHR '' '' # ([CHR 0x27] @ ''add':'')\<close>
    by simp
  have nl: \<open>CHR 0x0A \<notin> set (''case 'add':'')\<close>
    by simp
  note hole = notIncl_hole [OF t nl] notIncl_hole2 [OF t nl] notIncl_hole3 [OF t nl]
  show \<open>\<not> includesStr (generateTypeScriptEnterpriseServer nameKebab namePascal)
       (''case 'add':'')\<close>
    unfolding generateTypeScriptEnterpriseServer_def
    by ((rule notIncl_line [OF nl], (code_simp; fail), (code_simp; fail))
        | (rule hole [OF assms(1)] hole [OF assms(2)],
           (code_simp; fail), (code_simp; fail), (code_simp; fail))
        | (code_simp; fail))+
  have t: \<open>''process.env''
      = ''process'' @ CHR ''.'' # (''env'')\<close>
    by simp
  have nl: \<open>CHR 0x0A \<notin> set (''process.env'')\<close>
    by simp
  note hole = notIncl_hole [OF t nl] notIncl_hole2 [OF t nl] notIncl_hole3 [OF t nl]
  show \<open>\<not> includesStr (generateTypeScriptEnterpriseServer nameKebab namePascal)
       (''process.env'')\<close>
    unfolding generateTypeScriptEnterpriseServer_def
    by ((rule notIncl_line [OF nl], (code_simp; fail), (code_simp; fail))
        | (rule hole [OF assms(3)] hole [OF assms(4)],
           (code_simp; fail), (code_simp; fail), (code_simp; fail))
        | (code_simp; fail))+
qed

lemma python_enterprise_absent:
  assumes v: \<open>validName projectName\<close>
  shows \<open>\<not> includesStr (generatePythonEnterpriseServer (toSnakeCase projectName)
           (toPascalCase projectName))
       (''async def add('')\<close>
proof -
  have c0: \<open>\<not> isNameChar (CHR '' '')\<close>
    by (simp add: isNameChar_def is_upper_def is_lower_def is_digit_def)
  note absent = python_enterprise_without
    [OF valid_forms(1) [OF v c0]
      valid_forms(3) [OF v c0]]
  from absent show \<open>\<not> includesStr (generatePythonEnterpriseServer (toSnakeCase projectName)
           (toPascalCase projectName))
       (''async def add('')\<close>
    by blast+
qed

lemma typescript_enterprise_absent:
  assumes v: \<open>validName projectName\<close>
  shows \<open>\<not> includesStr (generateTypeScriptEnterpriseServer (toKebabCase projectName)
           (toPascalCase projectName))
       (''description: 'Add two numbers','')\<close>
    and \<open>\<not> includesStr (generateTypeScriptEnterpriseServer (toKebabCase projectName)
           (toPascalCase projectName))
       (''case 'add':'')\<close>
    and \<open>\<not> includesStr (generateTypeScriptEnterpriseServer (toKebabCase projectName)
           (toPascalCase projectName))
       (''process.env'')\<close>
proof -
  have c0: \<open>\<not> isNameChar (CHR '' '')\<close>
    by (simp add: isNameChar_def is_upper_def is_lower_def is_digit_def)
  have c1: \<open>\<not> isNameChar (CHR ''.'')\<close>
    by (simp add: isNameChar_def is_upper_def is_lower_def is_digit_def)
  note absent = typescript_enterprise_without
    [OF valid_forms(2) [OF v c0]
      valid_forms(3) [OF v c0]
      valid_forms(2) [OF v c1]
      valid_forms(3) [OF v c1]]
  from absent show \<open>\<not> includesStr (generateTypeScriptEnterpriseServer (toKebabCase projectName)
           (toPascalCase projectName))
       (''description: 'Add two numbers','')\<close>
    and \<open>\<not> includesStr (generateTypeScriptEnterpriseServer (toKebabCase projectName)
           (toPascalCase projectName))
       (''case 'add':'')\<close>
    and \<open>\<not> includesStr (generateTypeScriptEnterpriseServer (toKebabCase projectName)
           (toPascalCase projectName))
       (''process.env'')\<close>
    by blast+
qed

lemma map_of_put: "map_of (put p n fs) = (map_of fs)(p \<mapsto> n)"
  by (induction fs) auto

lemma writeFile_result:
  assumes "writeFile fs p content = Inr fs'"
  shows "readFile fs' q = (if q = p then Inr content else readFile fs q)"
proof -
  from assms have p: "p \<noteq> []" and fs': "fs' = put p (File content) fs"
    by (auto simp: writeFile_def stat_def split: option.splits node.splits if_splits)
  then show ?thesis
    by (simp add: readFile_def stat_def map_of_put)
qed

lemma join_file:
  "join base [''server.py''] = base @ [''server.py'']"
  "join base [''index.ts''] = base @ [''index.ts'']"
  "join base [''README.md''] = base @ [''README.md'']"
  "join base [''.gitignore''] = base @ [''.gitignore'']"
  by (simp_all add: join_def split_def)

lemma python_enterprise_server_written:
  assumes "generatePythonProject fs projectPath projectName nameSnake namePascal
             ''enterprise'' transport = Inr fs'"
  shows "readFile fs' (join (join projectPath [nameSnake]) [''server.py''])
           = Inr (generatePythonEnterpriseServer nameSnake namePascal)"
proof -
  from assms obtain fs5 fs6 where
    server: "writeFile fs5 (join (join projectPath [nameSnake]) [''server.py''])
               (generatePythonEnterpriseServer nameSnake namePascal) = Inr fs6"
    and rest: "await (writeFile fs6 (join projectPath [''README.md''])
                        (pythonReadme nameSnake namePascal))
                 (\<lambda>fs. writeFile fs (join projectPath [''.gitignore'']) pythonGitignore) = Inr fs'"
    by (auto simp: generatePythonProject_def Let_def await_def split: sum.splits)
  from rest obtain fs7 where
    readme: "writeFile fs6 (join projectPath [''README.md''])
               (pythonReadme nameSnake namePascal) = Inr fs7"
    and ignore: "writeFile fs7 (join projectPath [''.gitignore'']) pythonGitignore = Inr fs'"
    by (auto simp: await_def split: sum.splits)
  show ?thesis
    by (simp add: writeFile_result [OF ignore] writeFile_result [OF readme]
          writeFile_result [OF server] join_file)
qed

lemma typescript_enterprise_server_written:
  assumes "generateTypeScriptProject fs projectPath projectName nameKebab namePascal
             ''enterprise'' transport = Inr fs'"
  shows "readFile fs' (join (join projectPath [''src'']) [''index.ts''])
           = Inr (generateTypeScriptEnterpriseServer nameKebab namePascal)"
proof -
  from assms obtain fs4 fs5 where
    server: "writeFile fs4 (join (join projectPath [''src'']) [''index.ts''])
               (generateTypeScriptEnterpriseServer nameKebab namePascal) = Inr fs5"
    and rest: "await (writeFile fs5 (join projectPath [''README.md''])
                        (typescriptReadme namePascal))
                 (\<lambda>fs. writeFile fs (join projectPath [''.gitignore'']) typescriptGitignore)
               = Inr fs'"
    by (auto simp: generateTypeScriptProject_def Let_def await_def split: sum.splits)
  from rest obtain fs6 where
    readme: "writeFile fs5 (join projectPath [''README.md'']) (typescriptReadme namePascal)
               = Inr fs6"
    and ignore: "writeFile fs6 (join projectPath [''.gitignore'']) typescriptGitignore = Inr fs'"
    by (auto simp: await_def split: sum.splits)
  show ?thesis
    by (simp add: writeFile_result [OF ignore] writeFile_result [OF readme]
          writeFile_result [OF server] join_file)
qed

text \<open>
  C3, as the generators have it. For Python the enterprise server has the lifecycle hook
  (\<open>lifespan\<close>, passed to the server), the tool \<open>health_check\<close>, the authentication wired
  in when \<open>OAUTH2_ENABLED\<close> is set, and the prompt \<open>system_prompt\<close>; of the basic
  pattern it keeps the tool \<open>hello\<close> and the resource \<open>config://settings\<close>, and for a
  valid project name it has no tool \<open>add\<close>. For TypeScript it has a startup message, the
  tool \<open>health_check\<close> and the prompt \<open>system\<close>; it keeps the tool \<open>hello\<close> and the
  resource \<open>config://settings\<close>, and for a valid project name it neither lists nor
  handles a tool \<open>add\<close> and never reads the environment (\<open>process.env\<close>), so no
  authentication depends on it. For Go and Rust the pattern is not looked at: an enterprise project is
  the basic project.
\<close>

theorem enterprise_pattern_by_language:
  \<open>(generateProject fs projectPath projectName ''python'' ''enterprise'' transport = Inr fs'
      \<longrightarrow> (\<exists>content.
            readFile fs' (join (join projectPath [toSnakeCase projectName]) [''server.py''])
              = Inr content
            \<and> includesStr content
                (''@asynccontextmanager\<newline>async def lifespan(server: FastMCP)'')
            \<and> includesStr content
                (''    lifespan=lifespan,'')
            \<and> includesStr content
                (''@server.tool()\<newline>async def health_check()'')
            \<and> includesStr content
                (''if os.getenv("OAUTH2_ENABLED"):\<newline>    server.use_auth(OAuth2Provider('')
            \<and> includesStr content
                (''@server.prompt()\<newline>async def system_prompt()'')
            \<and> includesStr content
                (''@server.tool()\<newline>async def hello('')
            \<and> includesStr content
                (''@server.resource("config://settings")'')
            \<and> (validName projectName \<longrightarrow>
                 \<not> includesStr content
                     (''async def add(''))))
   \<and> (generateProject fs projectPath projectName ''typescript'' ''enterprise'' transport = Inr fs'
      \<longrightarrow> (\<exists>content.
            readFile fs' (join (join projectPath [''src'']) [''index.ts'']) = Inr content
            \<and> includesStr content
                (''console.error('Starting '')
            \<and> includesStr content
                (''        name: 'health_check',\<newline>        description: 'Check server health status','')
            \<and> includesStr content
                (''server.setRequestHandler(ListPromptsRequestSchema'')
            \<and> includesStr content
                (''        name: 'system',\<newline>        description: 'System prompt for this server','')
            \<and> includesStr content
                (''        name: 'hello',\<newline>        description: 'Say hello to someone','')
            \<and> includesStr content
                (''        uri: 'config://settings','')
            \<and> (validName projectName \<longrightarrow>
                 \<not> includesStr content
                     (''description: 'Add two numbers','')
                 \<and> \<not> includesStr content
                     (''case 'add':'')
                 \<and> \<not> includesStr content
                     (''process.env''))))
   \<and> generateProject fs projectPath projectName ''go'' ''enterprise'' transport
       = generateProject fs projectPath projectName ''go'' ''basic'' transport
   \<and> generateProject fs projectPath projectName ''rust'' ''enterprise'' transport
       = generateProject fs projectPath projectName ''rust'' ''basic'' transport\<close>
proof (intro conjI impI)
  assume "generateProject fs projectPath projectName ''python'' ''enterprise'' transport = Inr fs'"
  then have "readFile fs' (join (join projectPath [toSnakeCase projectName]) [''server.py''])
      = Inr (generatePythonEnterpriseServer (toSnakeCase projectName) (toPascalCase projectName))"
    by (simp add: generateProject_def Let_def python_enterprise_server_written)
  then show \<open>\<exists>content.
            readFile fs' (join (join projectPath [toSnakeCase projectName]) [''server.py''])
              = Inr content
            \<and> includesStr content
                (''@asynccontextmanager\<newline>async def lifespan(server: FastMCP)'')
            \<and> includesStr content
                (''    lifespan=lifespan,'')
            \<and> includesStr content
                (''@server.tool()\<newline>async def health_check()'')
            \<and> includesStr content
                (''if os.getenv("OAUTH2_ENABLED"):\<newline>    server.use_auth(OAuth2Provider('')
            \<and> includesStr content
                (''@server.prompt()\<newline>async def system_prompt()'')
            \<and> includesStr content
                (''@server.tool()\<newline>async def hello('')
            \<and> includesStr content
                (''@server.resource("config://settings")'')
            \<and> (validName projectName \<longrightarrow>
                 \<not> includesStr content
                     (''async def add(''))\<close>
    using python_enterprise_markers python_enterprise_absent by blast
next
  assume "generateProject fs projectPath projectName ''typescript'' ''enterprise'' transport
            = Inr fs'"
  then have "readFile fs' (join (join projectPath [''src'']) [''index.ts''])
      = Inr (generateTypeScriptEnterpriseServer (toKebabCase projectName)
               (toPascalCase projectName))"
    by (simp add: generateProject_def Let_def typescript_enterprise_server_written)
  then show \<open>\<exists>content.
            readFile fs' (join (join projectPath [''src'']) [''index.ts'']) = Inr content
            \<and> includesStr content
                (''console.error('Starting '')
            \<and> includesStr content
                (''        name: 'health_check',\<newline>        description: 'Check server health status','')
            \<and> includesStr content
                (''server.setRequestHandler(ListPromptsRequestSchema'')
            \<and> includesStr content
                (''        name: 'system',\<newline>        description: 'System prompt for this server','')
            \<and> includesStr content
                (''        name: 'hello',\<newline>        description: 'Say hello to someone','')
            \<and> includesStr content
                (''        uri: 'config://settings','')
            \<and> (validName projectName \<longrightarrow>
                 \<not> includesStr content
                     (''description: 'Add two numbers','')
                 \<and> \<not> includesStr content
                     (''case 'add':'')
                 \<and> \<not> includesStr content
                     (''process.env''))\<close>
    using typescript_enterprise_markers typescript_enterprise_absent by blast
qed (simp_all add: generateProject_def generateGoProject_def generateRustProject_def Let_def)

lemma hello_python_enterprise_disk:
  "generateProject [([''home''], Dir), ([''home'', ''hello-mcp''], Dir)] [''home'', ''hello-mcp'']
     ''hello-mcp'' ''python'' ''enterprise'' ''stdio''
   = Inr [([''home''], Dir),
          ([''home'', ''hello-mcp''], Dir),
          ([''home'', ''hello-mcp'', ''hello_mcp''], Dir),
          ([''home'', ''hello-mcp'', ''pyproject.toml''], File (pythonPyprojectToml ''hello_mcp'')),
          ([''home'', ''hello-mcp'', ''hello_mcp'', ''__init__.py''], File (pythonInitPy ''HelloMcp'')),
          ([''home'', ''hello-mcp'', ''hello_mcp'', ''__main__.py''],
             File (pythonMainPy ''HelloMcp'' ''stdio'')),
          ([''home'', ''hello-mcp'', ''hello_mcp'', ''server.py''],
             File (generatePythonEnterpriseServer ''hello_mcp'' ''HelloMcp'')),
          ([''home'', ''hello-mcp'', ''README.md''], File (pythonReadme ''hello_mcp'' ''HelloMcp'')),
          ([''home'', ''hello-mcp'', ''.gitignore''], File pythonGitignore)]"
  by (simp add: join_def split_def stat_def ensureDir_def await_def generateProject_def
        generatePythonProject_def Let_def names_hello_mcp writeFile_def dirname_def)

lemma hello_typescript_enterprise_disk:
  "generateProject [([''home''], Dir), ([''home'', ''hello-mcp''], Dir)] [''home'', ''hello-mcp'']
     ''hello-mcp'' ''typescript'' ''enterprise'' ''stdio''
   = Inr [([''home''], Dir),
          ([''home'', ''hello-mcp''], Dir),
          ([''home'', ''hello-mcp'', ''src''], Dir),
          ([''home'', ''hello-mcp'', ''package.json''], File (typescriptPackageJson ''hello-mcp'')),
          ([''home'', ''hello-mcp'', ''tsconfig.json''], File typescriptTsconfigJson),
          ([''home'', ''hello-mcp'', ''src'', ''index.ts''],
             File (generateTypeScriptEnterpriseServer ''hello-mcp'' ''HelloMcp'')),
          ([''home'', ''hello-mcp'', ''README.md''], File (typescriptReadme ''HelloMcp'')),
          ([''home'', ''hello-mcp'', ''.gitignore''], File typescriptGitignore)]"
  by (simp add: join_def split_def stat_def ensureDir_def await_def generateProject_def
        generateTypeScriptProject_def Let_def names_hello_mcp writeFile_def dirname_def)

theorem enterprise_pattern_by_language_witness:
  \<open>validName ''hello-mcp''
   \<and> generateProject [([''home''], Dir), ([''home'', ''hello-mcp''], Dir)] [''home'', ''hello-mcp'']
     ''hello-mcp'' ''python'' ''enterprise'' ''stdio''
   = Inr [([''home''], Dir),
          ([''home'', ''hello-mcp''], Dir),
          ([''home'', ''hello-mcp'', ''hello_mcp''], Dir),
          ([''home'', ''hello-mcp'', ''pyproject.toml''], File (pythonPyprojectToml ''hello_mcp'')),
          ([''home'', ''hello-mcp'', ''hello_mcp'', ''__init__.py''], File (pythonInitPy ''HelloMcp'')),
          ([''home'', ''hello-mcp'', ''hello_mcp'', ''__main__.py''],
             File (pythonMainPy ''HelloMcp'' ''stdio'')),
          ([''home'', ''hello-mcp'', ''hello_mcp'', ''server.py''],
             File (generatePythonEnterpriseServer ''hello_mcp'' ''HelloMcp'')),
          ([''home'', ''hello-mcp'', ''README.md''], File (pythonReadme ''hello_mcp'' ''HelloMcp'')),
          ([''home'', ''hello-mcp'', ''.gitignore''], File pythonGitignore)]
   \<and> includesStr (generatePythonEnterpriseServer ''hello_mcp'' ''HelloMcp'')
         (''@asynccontextmanager\<newline>async def lifespan(server: FastMCP)'')
     \<and> includesStr (generatePythonEnterpriseServer ''hello_mcp'' ''HelloMcp'')
         (''    lifespan=lifespan,'')
     \<and> includesStr (generatePythonEnterpriseServer ''hello_mcp'' ''HelloMcp'')
         (''@server.tool()\<newline>async def health_check()'')
     \<and> includesStr (generatePythonEnterpriseServer ''hello_mcp'' ''HelloMcp'')
         (''if os.getenv("OAUTH2_ENABLED"):\<newline>    server.use_auth(OAuth2Provider('')
     \<and> includesStr (generatePythonEnterpriseServer ''hello_mcp'' ''HelloMcp'')
         (''@server.prompt()\<newline>async def system_prompt()'')
     \<and> includesStr (generatePythonEnterpriseServer ''hello_mcp'' ''HelloMcp'')
         (''@server.tool()\<newline>async def hello('')
     \<and> includesStr (generatePythonEnterpriseServer ''hello_mcp'' ''HelloMcp'')
         (''@server.resource("config://settings")'')
   \<and> \<not> includesStr (generatePythonEnterpriseServer ''hello_mcp'' ''HelloMcp'')
         (''async def add('')
   \<and> generateProject [([''home''], Dir), ([''home'', ''hello-mcp''], Dir)] [''home'', ''hello-mcp'']
     ''hello-mcp'' ''typescript'' ''enterprise'' ''stdio''
   = Inr [([''home''], Dir),
          ([''home'', ''hello-mcp''], Dir),
          ([''home'', ''hello-mcp'', ''src''], Dir),
          ([''home'', ''hello-mcp'', ''package.json''], File (typescriptPackageJson ''hello-mcp'')),
          ([''home'', ''hello-mcp'', ''tsconfig.json''], File typescriptTsconfigJson),
          ([''home'', ''hello-mcp'', ''src'', ''index.ts''],
             File (generateTypeScriptEnterpriseServer ''hello-mcp'' ''HelloMcp'')),
          ([''home'', ''hello-mcp'', ''README.md''], File (typescriptReadme ''HelloMcp'')),
          ([''home'', ''hello-mcp'', ''.gitignore''], File typescriptGitignore)]
   \<and> includesStr (generateTypeScriptEnterpriseServer ''hello-mcp'' ''HelloMcp'')
         (''console.error('Starting '')
     \<and> includesStr (generateTypeScriptEnterpriseServer ''hello-mcp'' ''HelloMcp'')
         (''        name: 'health_check',\<newline>        description: 'Check server health status','')
     \<and> includesStr (generateTypeScriptEnterpriseServer ''hello-mcp'' ''HelloMcp'')
         (''server.setRequestHandler(ListPromptsRequestSchema'')
     \<and> includesStr (generateTypeScriptEnterpriseServer ''hello-mcp'' ''HelloMcp'')
         (''        name: 'system',\<newline>        description: 'System prompt for this server','')
     \<and> includesStr (generateTypeScriptEnterpriseServer ''hello-mcp'' ''HelloMcp'')
         (''        name: 'hello',\<newline>        description: 'Say hello to someone','')
     \<and> includesStr (generateTypeScriptEnterpriseServer ''hello-mcp'' ''HelloMcp'')
         (''        uri: 'config://settings','')
   \<and> \<not> includesStr (generateTypeScriptEnterpriseServer ''hello-mcp'' ''HelloMcp'')
         (''description: 'Add two numbers','')
     \<and> \<not> includesStr (generateTypeScriptEnterpriseServer ''hello-mcp'' ''HelloMcp'')
         (''case 'add':'')
     \<and> \<not> includesStr (generateTypeScriptEnterpriseServer ''hello-mcp'' ''HelloMcp'')
         (''process.env'')\<close>
proof -
  have v: "validName ''hello-mcp''"
    by code_simp
  note py = enterprise_pattern_by_language [THEN conjunct1, rule_format,
              OF hello_python_enterprise_disk]
  note ts = enterprise_pattern_by_language [THEN conjunct2, THEN conjunct1, rule_format,
              OF hello_typescript_enterprise_disk]
  from py v have \<open>includesStr (generatePythonEnterpriseServer ''hello_mcp'' ''HelloMcp'')
         (''@asynccontextmanager\<newline>async def lifespan(server: FastMCP)'')
     \<and> includesStr (generatePythonEnterpriseServer ''hello_mcp'' ''HelloMcp'')
         (''    lifespan=lifespan,'')
     \<and> includesStr (generatePythonEnterpriseServer ''hello_mcp'' ''HelloMcp'')
         (''@server.tool()\<newline>async def health_check()'')
     \<and> includesStr (generatePythonEnterpriseServer ''hello_mcp'' ''HelloMcp'')
         (''if os.getenv("OAUTH2_ENABLED"):\<newline>    server.use_auth(OAuth2Provider('')
     \<and> includesStr (generatePythonEnterpriseServer ''hello_mcp'' ''HelloMcp'')
         (''@server.prompt()\<newline>async def system_prompt()'')
     \<and> includesStr (generatePythonEnterpriseServer ''hello_mcp'' ''HelloMcp'')
         (''@server.tool()\<newline>async def hello('')
     \<and> includesStr (generatePythonEnterpriseServer ''hello_mcp'' ''HelloMcp'')
         (''@server.resource("config://settings")'')
   \<and> \<not> includesStr (generatePythonEnterpriseServer ''hello_mcp'' ''HelloMcp'')
         (''async def add('')\<close>
    by (simp add: readFile_def stat_def join_def split_def names_hello_mcp)
  moreover from ts v have \<open>includesStr (generateTypeScriptEnterpriseServer ''hello-mcp'' ''HelloMcp'')
         (''console.error('Starting '')
     \<and> includesStr (generateTypeScriptEnterpriseServer ''hello-mcp'' ''HelloMcp'')
         (''        name: 'health_check',\<newline>        description: 'Check server health status','')
     \<and> includesStr (generateTypeScriptEnterpriseServer ''hello-mcp'' ''HelloMcp'')
         (''server.setRequestHandler(ListPromptsRequestSchema'')
     \<and> includesStr (generateTypeScriptEnterpriseServer ''hello-mcp'' ''HelloMcp'')
         (''        name: 'system',\<newline>        description: 'System prompt for this server','')
     \<and> includesStr (generateTypeScriptEnterpriseServer ''hello-mcp'' ''HelloMcp'')
         (''        name: 'hello',\<newline>        description: 'Say hello to someone','')
     \<and> includesStr (generateTypeScriptEnterpriseServer ''hello-mcp'' ''HelloMcp'')
         (''        uri: 'config://settings','')
   \<and> \<not> includesStr (generateTypeScriptEnterpriseServer ''hello-mcp'' ''HelloMcp'')
         (''description: 'Add two numbers','')
     \<and> \<not> includesStr (generateTypeScriptEnterpriseServer ''hello-mcp'' ''HelloMcp'')
         (''case 'add':'')
     \<and> \<not> includesStr (generateTypeScriptEnterpriseServer ''hello-mcp'' ''HelloMcp'')
         (''process.env'')\<close>
    by (simp add: readFile_def stat_def join_def split_def)
  ultimately show ?thesis
    using v hello_python_enterprise_disk hello_typescript_enterprise_disk by blast
qed

lemma hello_go_enterprise_disk:
  "generateProject [([''home''], Dir), ([''home'', ''hello-mcp''], Dir)] [''home'', ''hello-mcp'']
     ''hello-mcp'' ''go'' ''enterprise'' ''stdio''
   = Inr [([''home''], Dir),
          ([''home'', ''hello-mcp''], Dir),
          ([''home'', ''hello-mcp'', ''go.mod''], File (goMod ''hello_mcp'')),
          ([''home'', ''hello-mcp'', ''main.go''], File (goMainGo ''hello_mcp'' ''HelloMcp'')),
          ([''home'', ''hello-mcp'', ''README.md''], File (goReadme ''hello_mcp'' ''HelloMcp'')),
          ([''home'', ''hello-mcp'', ''.gitignore''], File (goGitignore ''hello_mcp''))]"
  by (simp add: join_def split_def stat_def await_def generateProject_def
        generateGoProject_def Let_def names_hello_mcp writeFile_def dirname_def)

lemma go_capabilities:
  "matchAll goToolRe (goMainGo ''hello_mcp'' ''HelloMcp'') = [''hello'', ''add'']"
  by code_simp

lemma no_enterprise_content:
  "\<not> includesStr (goMainGo ''hello_mcp'' ''HelloMcp'') ''health''"
  "\<not> includesStr (goMainGo ''hello_mcp'' ''HelloMcp'') ''Getenv''"
  "\<not> includesStr (goMainGo ''hello_mcp'' ''HelloMcp'') ''rompt''"
  "\<not> includesStr (generateTypeScriptEnterpriseServer ''hello-mcp'' ''HelloMcp'') ''process.env''"
  by code_simp+

lemma python_enterprise_capabilities:
  "matchAll pythonToolRe (generatePythonEnterpriseServer ''hello_mcp'' ''HelloMcp'')
     = [''hello'', ''health_check'']"
  by code_simp

text \<open>
  C3 fails for Go: the enterprise project \<open>hello-mcp\<close> has the tools \<open>hello\<close> and \<open>add\<close> of
  the basic pattern and no prompt, and its \<open>main.go\<close> mentions neither a health check nor
  a prompt nor the environment. The TypeScript enterprise server never reads the
  environment. And the enterprise pattern does not add to the basic content: the tools of
  the basic Python server are \<open>hello\<close> and \<open>add\<close>, those of the enterprise server are
  \<open>hello\<close> and \<open>health_check\<close>.
\<close>

theorem enterprise_pattern_counterexample:
  "generateProject [([''home''], Dir), ([''home'', ''hello-mcp''], Dir)] [''home'', ''hello-mcp'']
     ''hello-mcp'' ''go'' ''enterprise'' ''stdio''
   = Inr [([''home''], Dir),
          ([''home'', ''hello-mcp''], Dir),
          ([''home'', ''hello-mcp'', ''go.mod''], File (goMod ''hello_mcp'')),
          ([''home'', ''hello-mcp'', ''main.go''], File (goMainGo ''hello_mcp'' ''HelloMcp'')),
          ([''home'', ''hello-mcp'', ''README.md''], File (goReadme ''hello_mcp'' ''HelloMcp'')),
          ([''home'', ''hello-mcp'', ''.gitignore''], File (goGitignore ''hello_mcp''))]
   \<and> analyzeProject
         [([''home''], Dir),
          ([''home'', ''hello-mcp''], Dir),
          ([''home'', ''hello-mcp'', ''go.mod''], File (goMod ''hello_mcp'')),
          ([''home'', ''hello-mcp'', ''main.go''], File (goMainGo ''hello_mcp'' ''HelloMcp'')),
          ([''home'', ''hello-mcp'', ''README.md''], File (goReadme ''hello_mcp'' ''HelloMcp'')),
          ([''home'', ''hello-mcp'', ''.gitignore''], File (goGitignore ''hello_mcp''))]
         [''home'', ''hello-mcp''] ''go''
       = Inr \<lparr>name = ''hello-mcp'', language = ''go'',
               tools = [''hello'', ''add''], resources = [], prompts = []\<rparr>
   \<and> \<not> includesStr (goMainGo ''hello_mcp'' ''HelloMcp'') ''health''
   \<and> \<not> includesStr (goMainGo ''hello_mcp'' ''HelloMcp'') ''Getenv''
   \<and> \<not> includesStr (goMainGo ''hello_mcp'' ''HelloMcp'') ''rompt''
   \<and> \<not> includesStr (generateTypeScriptEnterpriseServer ''hello-mcp'' ''HelloMcp'') ''process.env''
   \<and> matchAll pythonToolRe (generatePythonBasicServer ''hello_mcp'' ''HelloMcp'')
       = [''hello'', ''add'']
   \<and> matchAll pythonToolRe (generatePythonEnterpriseServer ''hello_mcp'' ''HelloMcp'')
       = [''hello'', ''health_check'']"
  by (simp add: hello_go_enterprise_disk no_enterprise_content analyzeProject_def
        analyzeGo_def Let_def join_def split_def basename_def pathExists_def stat_def
        readFile_def await_def go_capabilities python_basic_capabilities
        python_enterprise_capabilities)

section \<open>The add command leaves the project alone\<close>

lemma files_log: "files (log line w) = files w"
  by (simp add: log_def)

lemma files_addTo:
  "files (addToPython serverPath t n w) = files w"
  "files (addToTypeScript serverPath t n w) = files w"
  "files (addToGo serverPath t n w) = files w"
  "files (addToRust serverPath t n w) = files w"
  by (simp_all add: addToPython_def addToTypeScript_def addToGo_def addToRust_def files_log)

text \<open>
  C10. Whatever the capability type, the name and the server path, and whether the
  command succeeds or exits with an error, \<open>addCommand\<close> leaves the file system as it
  found it: it only writes lines to the console.
\<close>

theorem addCommand_keeps_files:
  "files (snd (addCommand cwd type n server w)) = files w"
  by (simp add: addCommand_def files_log files_addTo Let_def split: option.split)

section \<open>Validation results\<close>

lemma returns_Inr: "returns P (Inr v) = P v"
  by (simp add: returns_def)

lemma returns_await:
  assumes "\<And>v. x = Inr v \<Longrightarrow> returns P (f v)"
  shows "returns P (await x f)"
  using assms by (cases x) (simp_all add: await_def returns_def)

lemma returns_if:
  assumes "c \<Longrightarrow> returns P a" and "\<not> c \<Longrightarrow> returns P b"
  shows "returns P (if c then a else b)"
  using assms by simp

lemma returnsD: "returns P x \<Longrightarrow> x = Inr v \<Longrightarrow> P v"
  by (simp add: returns_def)

lemma consistent_error:
  "consistent (result\<lparr>errors := errors result @ [msg], valid := False\<rparr>)"
  by (simp add: consistent_def)

lemma consistent_warning:
  "consistent (result\<lparr>warnings := ws\<rparr>) = consistent result"
  by (simp add: consistent_def)

lemma consistent_if:
  "consistent (if c then a else b) = (if c then consistent a else consistent b)"
  by simp

lemmas consistent_simps = consistent_error consistent_warning consistent_if returns_Inr

lemma validateCommon_consistent:
  "consistent result \<Longrightarrow> consistent (validateCommon fs projectPath result)"
  by (simp add: validateCommon_def Let_def consistent_warning)

lemma checkServerPaths_keeps_errors:
  "returns (\<lambda>(found, result'). errors result' = errors result \<and> valid result' = valid result)
     (checkServerPaths fs ps result)"
proof (induction ps)
  case Nil
  show ?case by (simp add: returns_Inr)
next
  case (Cons p ps)
  show ?case
    unfolding checkServerPaths.simps
    by (intro returns_if returns_await Cons.IH) (simp add: returns_Inr)
qed

lemma validatePython_consistent:
  assumes "consistent result"
  shows "returns consistent (validatePython fs projectPath result)"
  unfolding validatePython_def Let_def
proof (intro returns_if returns_await)
  fix pyproject :: string and v :: "bool \<times> ValidationResult"
  let ?result1 = "if \<not> includesStr pyproject ''requires-python''
        then (if \<not> includesStr pyproject ''mcp'' \<and> \<not> includesStr pyproject ''fastmcp''
              then result\<lparr>errors := errors result @ [''Missing MCP dependency (mcp or fastmcp)''],
                            valid := False\<rparr>
              else result)
             \<lparr>warnings :=
                warnings (if \<not> includesStr pyproject ''mcp'' \<and> \<not> includesStr pyproject ''fastmcp''
                          then result\<lparr>errors := errors result
                                  @ [''Missing MCP dependency (mcp or fastmcp)''], valid := False\<rparr>
                          else result)
                @ [''Missing requires-python in pyproject.toml'']\<rparr>
        else if \<not> includesStr pyproject ''mcp'' \<and> \<not> includesStr pyproject ''fastmcp''
             then result\<lparr>errors := errors result @ [''Missing MCP dependency (mcp or fastmcp)''],
                           valid := False\<rparr>
             else result"
  assume chk: "checkServerPaths fs
     [join projectPath [replaceChar (CHR ''-'') (CHR ''_'') (basename projectPath), ''server.py''],
      join projectPath [''src'', ''server.py''], join projectPath [''server.py'']]
     ?result1 = Inr v"
  have c1: "consistent ?result1"
    using assms by (simp add: consistent_simps)
  obtain found result2 where v: "v = (found, result2)" by (cases v)
  from returnsD [OF checkServerPaths_keeps_errors chk] v
  have "errors result2 = errors ?result1" "valid result2 = valid ?result1" by simp_all
  with c1 have "consistent result2" by (simp only: consistent_def)
  with v show "returns consistent
     (case v of (serverFound, result) \<Rightarrow>
        Inr (if \<not> serverFound
             then result\<lparr>errors := errors result @ [''Missing server.py file''], valid := False\<rparr>
             else result))"
    by (simp add: consistent_simps)
qed (simp add: consistent_simps)

lemma validateTypeScript_consistent:
  assumes "consistent result"
  shows "returns consistent (validateTypeScript sdkDependency fs projectPath result)"
  unfolding validateTypeScript_def Let_def
  by (intro returns_if returns_await) (simp_all add: consistent_simps assms)

lemma validateGo_consistent:
  assumes "consistent result"
  shows "returns consistent (validateGo fs projectPath result)"
  unfolding validateGo_def Let_def
  by (intro returns_if returns_await) (simp_all add: consistent_simps assms)

lemma validateRust_consistent:
  assumes "consistent result"
  shows "returns consistent (validateRust fs projectPath result)"
  unfolding validateRust_def Let_def
  by (intro returns_if returns_await) (simp_all add: consistent_simps assms)

lemma validateProject_consistent:
  "returns consistent (validateProject sdkDependency fs projectPath lang)"
proof -
  have start: "consistent (validateCommon fs projectPath \<lparr>valid = True, errors = [], warnings = []\<rparr>)"
    by (rule validateCommon_consistent) (simp add: consistent_def)
  show ?thesis
    unfolding validateProject_def Let_def
    by (intro returns_if validatePython_consistent validateTypeScript_consistent
          validateGo_consistent validateRust_consistent start)
       (simp add: returns_Inr start)
qed

text \<open>
  C2. Whatever the project directory holds and whatever language is passed, a result that
  \<open>validateProject\<close> returns has \<open>valid\<close> true exactly when its list of errors is empty;
  the warnings play no part.
\<close>

theorem validateProject_valid_iff_no_errors:
  assumes "validateProject sdkDependency fs projectPath lang = Inr r"
  shows "valid r = (errors r = [])"
  using returnsD [OF validateProject_consistent assms] by (simp add: consistent_def)

theorem validateProject_valid_iff_no_errors_witness:
  "validateProject declaresSdk [([''p''], Dir), ([''p'', ''go.mod''], File ''module p'')] [''p''] ''go''
     = Inr \<lparr>valid = False,
             errors = [''Missing MCP dependency (mcp-go or go-sdk)'', ''Missing main.go''],
             warnings = [''Missing README.md'', ''Missing .gitignore'']\<rparr>
   \<and> valid \<lparr>valid = False,
             errors = [''Missing MCP dependency (mcp-go or go-sdk)'', ''Missing main.go''],
             warnings = [''Missing README.md'', ''Missing .gitignore'']\<rparr>
     = (errors \<lparr>valid = False,
             errors = [''Missing MCP dependency (mcp-go or go-sdk)'', ''Missing main.go''],
             warnings = [''Missing README.md'', ''Missing .gitignore'']\<rparr> = [])"
proof -
  have run: "validateProject declaresSdk
       [([''p''], Dir), ([''p'', ''go.mod''], File ''module p'')] [''p''] ''go''
     = Inr \<lparr>valid = False,
             errors = [''Missing MCP dependency (mcp-go or go-sdk)'', ''Missing main.go''],
             warnings = [''Missing README.md'', ''Missing .gitignore'']\<rparr>"
    by (simp add: validateProject_def validateCommon_def validateGo_def Let_def await_def
          pathExists_def stat_def readFile_def join_def split_def)
  from run validateProject_valid_iff_no_errors [OF run] show ?thesis by simp
qed

section \<open>A project without its entry point\<close>

lemma readFile_pathExists: "readFile fs p = Inr text \<Longrightarrow> pathExists fs p"
  by (auto simp: readFile_def pathExists_def split: option.splits)

lemma validateCommon_errors:
  "errors (validateCommon fs projectPath result) = errors result"
  "valid (validateCommon fs projectPath result) = valid result"
  by (simp_all add: validateCommon_def Let_def)

text \<open>
  C7. The project directory holds the manifest of its language, a file that declares the
  MCP dependency the validator looks for, and no entry-point file (for Python, none of
  the three places where \<open>server.py\<close> is looked for). Then \<open>validateProject\<close> returns a
  result with exactly one error, the one that names the missing entry point, and
  \<open>valid\<close> is false.
\<close>

theorem validateProject_missing_entry_point:
  assumes lang: "lang \<in> set SUPPORTED_LANGUAGES"
    and manifest: "readFile fs (join projectPath [manifestFile lang]) = Inr text"
    and declared: "declaresMcp sdkDependency lang text"
    and missing: "list_all (\<lambda>p. \<not> pathExists fs p) (entryPointPaths projectPath lang)"
  shows "\<exists>r. validateProject sdkDependency fs projectPath lang = Inr r
           \<and> errors r = [missingEntryPoint lang] \<and> \<not> valid r"
proof -
  note ex = readFile_pathExists [OF manifest]
  from lang consider (python) "lang = ''python''" | (typescript) "lang = ''typescript''"
    | (go) "lang = ''go''" | (rust) "lang = ''rust''"
    by (auto simp: SUPPORTED_LANGUAGES_def)
  then show ?thesis
  proof cases
    case python
    with manifest ex declared missing show ?thesis
      by (auto simp: validateProject_def validatePython_def Let_def await_def
            validateCommon_errors manifestFile_def declaresMcp_def entryPointPaths_def
            missingEntryPoint_def)
  next
    case typescript
    with manifest ex declared missing show ?thesis
      by (simp add: validateProject_def validateTypeScript_def Let_def await_def
            validateCommon_errors manifestFile_def declaresMcp_def entryPointPaths_def
            missingEntryPoint_def)
  next
    case go
    with manifest ex declared missing show ?thesis
      by (auto simp: validateProject_def validateGo_def Let_def await_def
            validateCommon_errors manifestFile_def declaresMcp_def entryPointPaths_def
            missingEntryPoint_def)
  next
    case rust
    with manifest ex declared missing show ?thesis
      by (simp add: validateProject_def validateRust_def Let_def await_def
            validateCommon_errors manifestFile_def declaresMcp_def entryPointPaths_def
            missingEntryPoint_def)
  qed
qed

theorem validateProject_missing_entry_point_witness:
  "''rust'' \<in> set SUPPORTED_LANGUAGES
   \<and> readFile [([''p''], Dir), ([''p'', ''Cargo.toml''], File (rustCargoToml ''p''))]
       (join [''p''] [manifestFile ''rust'']) = Inr (rustCargoToml ''p'')
   \<and> declaresMcp declaresSdk ''rust'' (rustCargoToml ''p'')
   \<and> list_all (\<lambda>p. \<not> pathExists
                     [([''p''], Dir), ([''p'', ''Cargo.toml''], File (rustCargoToml ''p''))] p)
        (entryPointPaths [''p''] ''rust'')
   \<and> (\<exists>r. validateProject declaresSdk
              [([''p''], Dir), ([''p'', ''Cargo.toml''], File (rustCargoToml ''p''))] [''p''] ''rust''
            = Inr r
          \<and> errors r = [''Missing src/main.rs''] \<and> \<not> valid r)"
proof -
  let ?fs = "[([''p''], Dir), ([''p'', ''Cargo.toml''], File (rustCargoToml ''p''))]"
  have l: "''rust'' \<in> set SUPPORTED_LANGUAGES"
    by (simp add: SUPPORTED_LANGUAGES_def)
  have m: "readFile ?fs (join [''p''] [manifestFile ''rust'']) = Inr (rustCargoToml ''p'')"
    by (simp add: readFile_def stat_def join_def split_def manifestFile_def)
  have "includesStr (rustCargoToml ''p'') ''rmcp''"
    by code_simp
  then have d: "declaresMcp declaresSdk ''rust'' (rustCargoToml ''p'')"
    by (simp add: declaresMcp_def)
  have e: "list_all (\<lambda>p. \<not> pathExists ?fs p) (entryPointPaths [''p''] ''rust'')"
    by (simp add: entryPointPaths_def pathExists_def stat_def join_def split_def)
  have msg: "missingEntryPoint ''rust'' = ''Missing src/main.rs''"
    by (simp add: missingEntryPoint_def)
  from validateProject_missing_entry_point [OF l m d e] msg l m d e show ?thesis
    by simp
qed

section \<open>Materializing a template tree\<close>

lemma foo_bar_names:
  "stripHbs (substituteName [(''projectNameSnake'', ''foo_bar'')] ''__projectNameSnake__'')
     = ''foo_bar''"
  "stripHbs (substituteName [(''projectNameSnake'', ''foo_bar'')]
               ''__projectNameSnake__.conf.hbs'') = ''foo_bar.conf''"
  by code_simp+

text \<open>
  C8. The template directory \<open>tpl\<close> holds the directory \<open>__projectNameSnake__\<close> with the
  file \<open>__projectNameSnake__.conf.hbs\<close> in it, and the context binds \<open>projectNameSnake\<close>
  to \<open>foo_bar\<close>. With fuel for two levels or more, \<open>copyTemplateFiles\<close> into the
  directory \<open>out\<close> returns, having added the directory \<open>out/foo_bar\<close> and the file
  \<open>out/foo_bar/foo_bar.conf\<close> with the rendered text, and nothing else.
\<close>

theorem copyTemplateFiles_foo_bar:
  assumes "render content [(''projectNameSnake'', ''foo_bar'')] = Inr processed"
  shows "copyTemplateFiles (Suc (Suc fuel)) render
           [([''tpl''], Dir),
            ([''tpl'', ''__projectNameSnake__''], Dir),
            ([''tpl'', ''__projectNameSnake__'', ''__projectNameSnake__.conf.hbs''], File content),
            ([''out''], Dir)]
           [''tpl''] [''out''] [(''projectNameSnake'', ''foo_bar'')]
         = Inr [([''tpl''], Dir),
                ([''tpl'', ''__projectNameSnake__''], Dir),
                ([''tpl'', ''__projectNameSnake__'', ''__projectNameSnake__.conf.hbs''],
                   File content),
                ([''out''], Dir),
                ([''out'', ''foo_bar''], Dir),
                ([''out'', ''foo_bar'', ''foo_bar.conf''], File processed)]"
  using assms
  by (simp add: readdir_def stat_def dirname_def basename_def await_def join_def split_def
        foo_bar_names ensureDir_def readFile_def writeFile_def Let_def)

theorem copyTemplateFiles_foo_bar_witness:
  "verbatim ''port = 8080'' [(''projectNameSnake'', ''foo_bar'')] = Inr ''port = 8080''
   \<and> copyTemplateFiles 2 verbatim
           [([''tpl''], Dir),
            ([''tpl'', ''__projectNameSnake__''], Dir),
            ([''tpl'', ''__projectNameSnake__'', ''__projectNameSnake__.conf.hbs''],
               File ''port = 8080''),
            ([''out''], Dir)]
           [''tpl''] [''out''] [(''projectNameSnake'', ''foo_bar'')]
         = Inr [([''tpl''], Dir),
                ([''tpl'', ''__projectNameSnake__''], Dir),
                ([''tpl'', ''__projectNameSnake__'', ''__projectNameSnake__.conf.hbs''],
                   File ''port = 8080''),
                ([''out''], Dir),
                ([''out'', ''foo_bar''], Dir),
                ([''out'', ''foo_bar'', ''foo_bar.conf''], File ''port = 8080'')]"
proof -
  have r: "verbatim ''port = 8080'' [(''projectNameSnake'', ''foo_bar'')] = Inr ''port = 8080''"
    by (simp add: verbatim_def)
  from r copyTemplateFiles_foo_bar [where render = verbatim and content = "''port = 8080''"
      and processed = "''port = 8080''" and fuel = 0, OF r] show ?thesis
    by (simp add: numeral_2_eq_2)
qed

end
